theory Spec2Isabelle
  imports Main
begin

section \<open>Common JavaScript notions\<close>

text \<open>
  Strings are lists of code units. The headers, keys, claims and messages are Basic
  Latin strings; the role names, of which the case is converted, are lists of code
  unit numbers. Instants are \<open>Date.getTime()\<close> values, milliseconds as integers.
  A header, claim or column that may be \<open>undefined\<close> or \<open>null\<close> is an option.
\<close>

type_synonym instant = int

text \<open>JavaScript truthiness of a string that may be absent: \<open>undefined\<close>, \<open>null\<close>
  and the empty string are falsy.\<close>

definition truthy :: "string option \<Rightarrow> bool" where
  "truthy v = (case v of None \<Rightarrow> False | Some s \<Rightarrow> s \<noteq> [])"

text \<open>\<open>a || b\<close> on strings that may be absent.\<close>

definition js_or :: "string option \<Rightarrow> string option \<Rightarrow> string option" where
  "js_or a b = (if truthy a then a else b)"

text \<open>\<open>s.startsWith(p)\<close>.\<close>

definition startsWith :: "string \<Rightarrow> string \<Rightarrow> bool" where
  "startsWith s p = (take (length p) s = p)"

text \<open>The string of a value that may be absent, for the places where the code has
  already tested it.\<close>

definition the_default :: "'a \<Rightarrow> 'a option \<Rightarrow> 'a" where
  "the_default d v = (case v of None \<Rightarrow> d | Some x \<Rightarrow> x)"

text \<open>An HTTP response that ends the request: status code and the \<open>error\<close> field of
  the JSON body.\<close>

datatype response = Response (status: nat) (error_msg: string)

section \<open>API key middleware (third file of src/unnamed/part_005)\<close>

record request =
  x_api_key :: "string option"
  authorization :: "string option"
  x_organization_id :: "string option"
  params :: "string \<Rightarrow> string option"
  ip :: "string option"

text \<open>A row of the \<open>apiKey\<close> table, with the columns the sources read and write.
  The two counters start at 0 and are only incremented or set to 0, so they are
  naturals; \<open>rateLimit\<close> comes from the request body and is an integer.\<close>

record ApiKey =
  ak_id :: string
  ak_userId :: string
  ak_orgId :: "string option"
  ak_name :: string
  ak_description :: "string option"
  ak_keyHash :: string
  ak_keyPrefix :: string
  ak_scopes :: "string list"
  ak_projectIds :: "string list"
  ak_workflowIds :: "string list"
  ak_rateLimit :: int
  ak_rateLimitUsed :: nat
  ak_rateLimitReset :: "instant option"
  ak_usageCount :: nat
  ak_lastUsedAt :: "instant option"
  ak_lastUsedIp :: "string option"
  ak_expiresAt :: "instant option"
  ak_isActive :: bool
  ak_createdAt :: instant
  ak_updatedAt :: instant

text \<open>\<open>prisma.apiKey.findUnique({ where: { keyHash } })\<close> and
  \<open>findUnique({ where: { id } })\<close>: the row with that value of a unique column.\<close>

definition findByHash :: "ApiKey list \<Rightarrow> string \<Rightarrow> ApiKey option" where
  "findByHash db h = find (\<lambda>k. ak_keyHash k = h) db"

definition findById :: "ApiKey list \<Rightarrow> string \<Rightarrow> ApiKey option" where
  "findById db i = find (\<lambda>k. ak_id k = i) db"

text \<open>\<open>prisma.apiKey.update({ where: { id }, data })\<close>.\<close>

definition updateById :: "string \<Rightarrow> (ApiKey \<Rightarrow> ApiKey) \<Rightarrow> ApiKey list \<Rightarrow> ApiKey list" where
  "updateById i f db = map (\<lambda>k. if ak_id k = i then f k else k) db"

text \<open>\<open>extractApiKey\<close>: the dedicated header first, then a Bearer token, each only
  when it starts with one of the three prefixes the function lists.\<close>

definition validPrefixes :: "string list" where
  "validPrefixes = [''orc_'', ''ak_'', ''sk_'']"

definition hasValidPrefix :: "string \<Rightarrow> bool" where
  "hasValidPrefix s = list_ex (startsWith s) validPrefixes"

text \<open>\<open>authHeader && authHeader.startsWith('Bearer ')\<close>, then
  \<open>authHeader.substring(7)\<close>; \<open>None\<close> when the test fails.\<close>

definition bearerToken :: "string option \<Rightarrow> string option" where
  "bearerToken h =
     (case h of
        None \<Rightarrow> None
      | Some authHeader \<Rightarrow>
          if startsWith authHeader ''Bearer '' then Some (drop 7 authHeader) else None)"

definition extractApiKey :: "request \<Rightarrow> string option" where
  "extractApiKey req =
     (if (case x_api_key req of None \<Rightarrow> False
          | Some apiKeyHeader \<Rightarrow> apiKeyHeader \<noteq> [] \<and> hasValidPrefix apiKeyHeader)
      then x_api_key req
      else (case bearerToken (authorization req) of
              None \<Rightarrow> None
            | Some token \<Rightarrow> if hasValidPrefix token then Some token else None))"

text \<open>The result of \<open>validateApiKey\<close>: \<open>{ valid: false, error, rateLimited }\<close> or
  \<open>{ valid: true, apiKey }\<close>.\<close>

datatype validation =
  Invalid (reason: string) (rateLimited: bool) | is_Valid: Valid (validKey: ApiKey)

text \<open>
  \<open>validateApiKey\<close>. \<open>hashApiKey\<close> (SHA-256 in hexadecimal, from the crypto library)
  is a parameter, and so is the clock: \<open>now\<close> is what \<open>new Date()\<close> returns during
  the call. The function returns the table as well, because it writes the reset of the
  window before it compares the counter.
\<close>

definition expiredAt :: "ApiKey \<Rightarrow> instant \<Rightarrow> bool" where
  "expiredAt apiKey now =
     (case ak_expiresAt apiKey of None \<Rightarrow> False | Some e \<Rightarrow> e < now)"

definition orgMismatch :: "ApiKey \<Rightarrow> string option \<Rightarrow> bool" where
  "orgMismatch apiKey requestedOrgId =
     (truthy requestedOrgId \<and> truthy (ak_orgId apiKey) \<and> ak_orgId apiKey \<noteq> requestedOrgId)"

definition windowElapsed :: "ApiKey \<Rightarrow> instant \<Rightarrow> bool" where
  "windowElapsed apiKey now =
     (case ak_rateLimitReset apiKey of None \<Rightarrow> False | Some r \<Rightarrow> r < now)"

definition scopeMissing :: "ApiKey \<Rightarrow> string option \<Rightarrow> bool" where
  "scopeMissing apiKey requiredScope =
     (case requiredScope of None \<Rightarrow> False
      | Some sc \<Rightarrow> sc \<noteq> [] \<and> sc \<notin> set (ak_scopes apiKey))"

definition workflowDenied :: "ApiKey \<Rightarrow> string option \<Rightarrow> bool" where
  "workflowDenied apiKey resourceId =
     (case resourceId of None \<Rightarrow> False
      | Some r \<Rightarrow> r \<noteq> [] \<and> ak_workflowIds apiKey \<noteq> [] \<and> r \<notin> set (ak_workflowIds apiKey))"

definition validateApiKey ::
  "(string \<Rightarrow> string) \<Rightarrow> instant \<Rightarrow> ApiKey list \<Rightarrow> string \<Rightarrow> string option \<Rightarrow>
   string option \<Rightarrow> string option \<Rightarrow> validation \<times> ApiKey list" where
  "validateApiKey hashApiKey now db key requiredScope resourceId requestedOrgId =
     (case findByHash db (hashApiKey key) of
        None \<Rightarrow> (Invalid ''Invalid API key'' False, db)
      | Some apiKey \<Rightarrow>
          if \<not> ak_isActive apiKey then (Invalid ''API key is inactive'' False, db)
          else if expiredAt apiKey now then (Invalid ''API key has expired'' False, db)
          else if orgMismatch apiKey requestedOrgId
          then (Invalid ''API key does not belong to the requested organization'' False, db)
          else
            let db' = (if windowElapsed apiKey now
                       then updateById (ak_id apiKey)
                              (\<lambda>k. k\<lparr>ak_rateLimitUsed := 0,
                                      ak_rateLimitReset := Some (now + 3600000)\<rparr>) db
                       else db);
                apiKey' = (if windowElapsed apiKey now
                           then apiKey\<lparr>ak_rateLimitUsed := 0\<rparr> else apiKey)
            in if ak_rateLimit apiKey' \<le> int (ak_rateLimitUsed apiKey')
               then (Invalid ''Rate limit exceeded'' True, db')
               else if scopeMissing apiKey' requiredScope
               then (Invalid (''Missing required scope: '' @ the_default [] requiredScope)
                       False, db')
               else if workflowDenied apiKey' resourceId
               then (Invalid ''API key does not have access to this workflow'' False, db')
               else (Valid apiKey', db'))"

text \<open>
  \<open>updateApiKeyUsage\<close>. The \<open>data\<close> argument reads the row first
  (\<open>k.rateLimitReset || now + 1h\<close>); for an id with no row that read is a TypeError and
  nothing is written.
\<close>

datatype js_error = TypeError | Thrown string

definition updateApiKeyUsage ::
  "instant \<Rightarrow> string \<Rightarrow> string option \<Rightarrow> ApiKey list \<Rightarrow> js_error + ApiKey list" where
  "updateApiKeyUsage now apiKeyId clientIp db =
     (case findById db apiKeyId of
        None \<Rightarrow> Inl TypeError
      | Some k \<Rightarrow>
          Inr (updateById apiKeyId
                 (\<lambda>r. r\<lparr>ak_usageCount := ak_usageCount r + 1,
                         ak_rateLimitUsed := ak_rateLimitUsed r + 1,
                         ak_lastUsedAt := Some now,
                         ak_lastUsedIp := clientIp,
                         ak_rateLimitReset :=
                           Some (case ak_rateLimitReset k of
                                   Some r0 \<Rightarrow> r0 | None \<Rightarrow> now + 3600000)\<rparr>) db))"

text \<open>A row of the \<open>usuario\<close> table, as selected by the middleware.\<close>

record usuario =
  u_id :: string
  u_email :: string
  u_roles :: "string list"
  u_fullName :: "string option"

text \<open>The payload of a decoded local JWT, with the claims the sources read. A claim
  that is missing or \<open>null\<close> is \<open>None\<close>.\<close>

record claims =
  c_userId :: "string option"
  c_id :: "string option"
  c_email :: "string option"
  c_name :: "string option"
  c_fullName :: "string option"
  c_role :: "string option"
  c_roles :: "string list option"
  c_perfis :: "string list option"
  c_orgId :: "string option"
  c_orgIds :: "string list option"
  c_orgRole :: "string option"

text \<open>\<open>req.user\<close>: the union of the fields the middlewares set; a field a middleware
  does not set is \<open>None\<close>.\<close>

record principal =
  p_id :: "string option"
  p_userId :: "string option"
  p_tahUserId :: "string option"
  p_email :: "string option"
  p_name :: "string option"
  p_fullName :: "string option"
  p_role :: "string option"
  p_roles :: "string list"
  p_perfis :: "string list option"
  p_orgId :: "string option"
  p_orgName :: "string option"
  p_orgIds :: "string list option"
  p_orgRole :: "string option"
  p_permissions :: "string list option"
  p_authSource :: "string option"

text \<open>\<open>req.apiKey\<close>.\<close>

record apiKeyInfo =
  ai_id :: string
  ai_name :: string
  ai_scopes :: "string list"
  ai_projectIds :: "string list"
  ai_workflowIds :: "string list"
  ai_orgId :: "string option"

text \<open>What \<open>authenticateHybrid\<close> has attached to the request when it calls
  \<open>next()\<close>: \<open>req.user\<close>, \<open>req.apiKey\<close>, \<open>req.authMethod\<close>, \<open>req.org.orgId\<close> and
  \<open>req.tenantContext\<close> (user id and org id).\<close>

record hybridContext =
  h_user :: principal
  h_apiKey :: "apiKeyInfo option"
  h_authMethod :: string
  h_org :: "string option"
  h_tenantContext :: "(string option \<times> string) option"

datatype 'a outcome = is_Reply: Reply (the_reply: response) | is_Next: Next (the_ctx: 'a)

text \<open>\<open>roles: decoded.roles || (decoded.role ? [decoded.role] : ['USER'])\<close>: an
  array is truthy in JavaScript, the empty one too.\<close>

definition rolesOfClaims :: "claims \<Rightarrow> string list" where
  "rolesOfClaims decoded =
     (case c_roles decoded of
        Some rs \<Rightarrow> rs
      | None \<Rightarrow> (if truthy (c_role decoded) then [the_default [] (c_role decoded)]
                 else [''USER'']))"

text \<open>The API key branch of \<open>authenticateHybrid\<close>, entered when \<open>extractApiKey\<close>
  finds a key. The usage update is started without being awaited and its failure is
  only logged; the model applies it to the returned table.\<close>

definition hybridApiKey ::
  "(string \<Rightarrow> string) \<Rightarrow> instant \<Rightarrow> string option \<Rightarrow> string option \<Rightarrow> usuario list \<Rightarrow>
   ApiKey list \<Rightarrow> request \<Rightarrow> string \<Rightarrow> hybridContext outcome \<times> ApiKey list" where
  "hybridApiKey hashApiKey now scope resourceIdParam users db req apiKey =
     (let resourceId = (case resourceIdParam of None \<Rightarrow> None
                        | Some n \<Rightarrow> if n \<noteq> [] then params req n else None);
          requestedOrgId = js_or (x_organization_id req) None
      in case validateApiKey hashApiKey now db apiKey scope resourceId requestedOrgId of
           (Invalid e limited, db') \<Rightarrow>
             (if limited then (Reply (Response 429 e), db')
              else (Reply (Response 401 e), db'))
         | (Valid k, db') \<Rightarrow>
             (case find (\<lambda>u. u_id u = ak_userId k) users of
                None \<Rightarrow> (Reply (Response 401 ''API key owner not found''), db')
              | Some user \<Rightarrow>
                  let apiKeyOrgId = js_or (ak_orgId k) requestedOrgId;
                      ctx = \<lparr>h_user =
                               \<lparr>p_id = Some (u_id user), p_userId = Some (u_id user),
                                p_tahUserId = None, p_email = Some (u_email user),
                                p_name = None, p_fullName = u_fullName user,
                                p_role = js_or (case u_roles user of [] \<Rightarrow> None
                                                | r # _ \<Rightarrow> Some r) (Some ''USER''),
                                p_roles = u_roles user, p_perfis = None,
                                p_orgId = apiKeyOrgId, p_orgName = None,
                                p_orgIds = Some (if truthy apiKeyOrgId
                                                 then [the_default [] apiKeyOrgId] else []),
                                p_orgRole = Some ''MEMBER'', p_permissions = None,
                                p_authSource = None\<rparr>,
                             h_apiKey = Some \<lparr>ai_id = ak_id k, ai_name = ak_name k,
                                              ai_scopes = ak_scopes k,
                                              ai_projectIds = ak_projectIds k,
                                              ai_workflowIds = ak_workflowIds k,
                                              ai_orgId = ak_orgId k\<rparr>,
                             h_authMethod = ''api_key'',
                             h_org = (if truthy apiKeyOrgId then apiKeyOrgId else None),
                             h_tenantContext =
                               (if truthy apiKeyOrgId
                                then Some (Some (u_id user), the_default [] apiKeyOrgId)
                                else None)\<rparr>
                  in (Next ctx,
                      (case updateApiKeyUsage now (ak_id k) (ip req) db' of
                         Inl _ \<Rightarrow> db' | Inr db'' \<Rightarrow> db''))))"

text \<open>The JWT branch. \<open>verifyAccessToken\<close> (signature and expiry against the local
  secret, from the JWT library) is a parameter: \<open>None\<close> when it throws.\<close>

definition hybridJwt ::
  "(string \<Rightarrow> claims option) \<Rightarrow> request \<Rightarrow> hybridContext outcome" where
  "hybridJwt verifyAccessToken req =
     (case bearerToken (authorization req) of
        None \<Rightarrow>
          Reply (Response 401
            ''No authentication provided. Use X-API-Key header or Bearer token.'')
      | Some token \<Rightarrow>
          (case verifyAccessToken token of
             None \<Rightarrow> Reply (Response 401 ''Invalid or expired token'')
           | Some decoded \<Rightarrow>
               let userId = js_or (c_userId decoded) (c_id decoded);
                   requestedOrgId = x_organization_id req;
                   tokenOrgId = c_orgId decoded;
                   tokenOrgIds = the_default [] (c_orgIds decoded)
               in if truthy requestedOrgId \<and> tokenOrgIds \<noteq> [] \<and>
                     the_default [] requestedOrgId \<notin> set tokenOrgIds
                  then Reply (Response 403 ''Access denied to requested organization'')
                  else
                    let effectiveOrgId =
                          (if truthy requestedOrgId \<and> tokenOrgIds \<noteq> []
                           then requestedOrgId else tokenOrgId)
                    in Next \<lparr>h_user =
                               \<lparr>p_id = userId, p_userId = userId, p_tahUserId = None,
                                p_email = c_email decoded, p_name = None,
                                p_fullName = c_fullName decoded, p_role = c_role decoded,
                                p_roles = rolesOfClaims decoded,
                                p_perfis = Some (the_default [] (c_perfis decoded)),
                                p_orgId = effectiveOrgId, p_orgName = None,
                                p_orgIds = Some tokenOrgIds,
                                p_orgRole = c_orgRole decoded, p_permissions = None,
                                p_authSource = None\<rparr>,
                             h_apiKey = None, h_authMethod = ''jwt'',
                             h_org = (if truthy effectiveOrgId then effectiveOrgId else None),
                             h_tenantContext =
                               (if truthy effectiveOrgId
                                then Some (userId, the_default [] effectiveOrgId)
                                else None)\<rparr>))"

text \<open>\<open>authenticateHybrid(options)\<close>: the API key first, the JWT otherwise.\<close>

definition authenticateHybrid ::
  "(string \<Rightarrow> string) \<Rightarrow> (string \<Rightarrow> claims option) \<Rightarrow> instant \<Rightarrow> string option \<Rightarrow>
   string option \<Rightarrow> usuario list \<Rightarrow> ApiKey list \<Rightarrow> request \<Rightarrow>
   hybridContext outcome \<times> ApiKey list" where
  "authenticateHybrid hashApiKey verifyAccessToken now scope resourceIdParam users db req =
     (case extractApiKey req of
        Some apiKey \<Rightarrow> hybridApiKey hashApiKey now scope resourceIdParam users db req apiKey
      | None \<Rightarrow> (hybridJwt verifyAccessToken req, db))"

section \<open>Authentication configuration (config/auth.config.js)\<close>

record tahConfig =
  tah_enabled :: bool
  tah_issuer :: string
  tah_jwksUrl :: string
  tah_audience :: string
  tah_publicKey :: "string option"
  tah_appId :: string
  tah_jwksCacheTtl :: int
  tah_clockTolerance :: int

text \<open>\<open>isTahEnabled()\<close> and \<open>isLocalEnabled()\<close>, with \<open>AUTH_MODE\<close> as a parameter.\<close>

definition isTahEnabled :: "tahConfig \<Rightarrow> string \<Rightarrow> bool" where
  "isTahEnabled cfg authMode = (tah_enabled cfg \<and> (authMode = ''tah'' \<or> authMode = ''dual''))"

definition isLocalEnabled :: "string \<Rightarrow> bool" where
  "isLocalEnabled authMode = (authMode = ''local'' \<or> authMode = ''dual'')"

text \<open>
  Role names are JavaScript strings, lists of UTF-16 code units, which are numbers
  here; \<open>units\<close> gives the code units of a Basic Latin literal. The keys of the role
  table are Latin-1 strings, of code units below 256.

  \<open>String.prototype.toLowerCase\<close> and \<open>toUpperCase\<close> are the case conversions of
  the Unicode standard. Their values are tabulated here for the code units of Latin-1
  and for four more: dotless i (131 hexadecimal), Y with diaeresis (178), Greek
  capital Mu (39C) and the Kelvin sign (212A). On these the conversions act unit by
  unit and without regard to the context: \<open>toLowerCase\<close> adds 32 to \<open>A\<close>..\<open>Z\<close> and to
  the capital letters C0..DE except the multiplication sign D7, sends 178 to FF, 39C
  to 3BC and 212A to \<open>k\<close>; \<open>toUpperCase\<close> subtracts 32 from \<open>a\<close>..\<open>z\<close> and from
  the small letters E0..FE except the division sign F7, sends the micro sign B5 to 39C,
  sharp s (DF) to the two units \<open>SS\<close>, FF to 178 and dotless i to \<open>I\<close>. For a string
  with any other code unit the conversion is that of the runtime's library, a
  parameter.
\<close>

definition units :: "string \<Rightarrow> nat list" where
  "units s = map of_char s"

definition tabulated :: "nat \<Rightarrow> bool" where
  "tabulated c = (c < 256 \<or> c = 0x131 \<or> c = 0x178 \<or> c = 0x39C \<or> c = 0x212A)"

definition lowerUnit :: "nat \<Rightarrow> nat list" where
  "lowerUnit c =
     (if (0x41 \<le> c \<and> c \<le> 0x5A) \<or> (0xC0 \<le> c \<and> c \<le> 0xD6) \<or> (0xD8 \<le> c \<and> c \<le> 0xDE)
      then [c + 32]
      else if c = 0x178 then [0xFF]
      else if c = 0x39C then [0x3BC]
      else if c = 0x212A then [0x6B]
      else [c])"

definition upperUnit :: "nat \<Rightarrow> nat list" where
  "upperUnit c =
     (if (0x61 \<le> c \<and> c \<le> 0x7A) \<or> (0xE0 \<le> c \<and> c \<le> 0xF6) \<or> (0xF8 \<le> c \<and> c \<le> 0xFE)
      then [c - 32]
      else if c = 0xB5 then [0x39C]
      else if c = 0xDF then [0x53, 0x53]
      else if c = 0xFF then [0x178]
      else if c = 0x131 then [0x49]
      else [c])"

definition lowerUnits :: "nat list \<Rightarrow> nat list" where
  "lowerUnits s = concat (map lowerUnit s)"

definition upperUnits :: "nat list \<Rightarrow> nat list" where
  "upperUnits s = concat (map upperUnit s)"

record caseLibrary =
  libToLowerCase :: "nat list \<Rightarrow> nat list"
  libToUpperCase :: "nat list \<Rightarrow> nat list"

definition toLowerCase :: "caseLibrary \<Rightarrow> nat list \<Rightarrow> nat list" where
  "toLowerCase lib s = (if list_all tabulated s then lowerUnits s else libToLowerCase lib s)"

definition toUpperCase :: "caseLibrary \<Rightarrow> nat list \<Rightarrow> nat list" where
  "toUpperCase lib s = (if list_all tabulated s then upperUnits s else libToUpperCase lib s)"

text \<open>\<open>String.prototype.trim\<close> removes white space and line terminators at both
  ends: the code units 9 to 13, 20 (hexadecimal), A0, 1680, 2000 to 200A, 2028, 2029,
  202F, 205F, 3000 and FEFF.\<close>

definition isWhiteSpace :: "nat \<Rightarrow> bool" where
  "isWhiteSpace c =
     ((0x09 \<le> c \<and> c \<le> 0x0D) \<or> c = 0x20 \<or> c = 0xA0 \<or> c = 0x1680 \<or>
      (0x2000 \<le> c \<and> c \<le> 0x200A) \<or> c = 0x2028 \<or> c = 0x2029 \<or> c = 0x202F \<or>
      c = 0x205F \<or> c = 0x3000 \<or> c = 0xFEFF)"

definition trim :: "nat list \<Rightarrow> nat list" where
  "trim s = rev (dropWhile isWhiteSpace (rev (dropWhile isWhiteSpace s)))"

text \<open>A Latin-1 string: every code unit is below 256.\<close>

definition latin1 :: "nat list \<Rightarrow> bool" where
  "latin1 s = list_all (\<lambda>c. c < 256) s"

text \<open>\<open>TAH_ROLE_MAPPING\<close>, in the order of the source. The code unit E1 (hexadecimal)
  is \<open>a\<close> with acute accent.\<close>

definition TAH_ROLE_MAPPING :: "(nat list \<times> nat list) list" where
  "TAH_ROLE_MAPPING =
     [(units ''administrador'', units ''ADMIN''),
      (units ''proprietario'', units ''OWNER''),
      (units ''propriet'' @ [0xE1] @ units ''rio'', units ''OWNER''),
      (units ''desenvolvedor'', units ''DEVELOPER''),
      (units ''usuario'', units ''USER''),
      (units ''usu'' @ [0xE1] @ units ''rio'', units ''USER''),
      (units ''visualizador'', units ''VIEWER''),
      (units ''gerente'', units ''ADMIN''),
      (units ''gestor'', units ''ADMIN''),
      (units ''admin'', units ''ADMIN''),
      (units ''administrator'', units ''ADMIN''),
      (units ''superadmin'', units ''ADMIN''),
      (units ''super_admin'', units ''ADMIN''),
      (units ''super-admin'', units ''ADMIN''),
      (units ''sysadmin'', units ''ADMIN''),
      (units ''owner'', units ''OWNER''),
      (units ''developer'', units ''DEVELOPER''),
      (units ''dev'', units ''DEVELOPER''),
      (units ''user'', units ''USER''),
      (units ''viewer'', units ''VIEWER''),
      (units ''member'', units ''USER''),
      (units ''editor'', units ''DEVELOPER''),
      (units ''manager'', units ''ADMIN''),
      (units ''moderator'', units ''ADMIN'')]"

text \<open>
  \<open>TAH_ROLE_MAPPING\<close> is an object literal, so \<open>TAH_ROLE_MAPPING[name]\<close> finds the
  properties that every object inherits from \<open>Object.prototype\<close> as well as its own.
  The inherited ones are functions, and the object \<open>Object.prototype\<close> itself for
  \<open>__proto__\<close>: none of them is a string, all of them are truthy.
\<close>

definition objectPrototypeNames :: "nat list list" where
  "objectPrototypeNames =
     [units ''constructor'', units ''__proto__'', units ''hasOwnProperty'',
      units ''isPrototypeOf'', units ''propertyIsEnumerable'', units ''toLocaleString'',
      units ''toString'', units ''valueOf'', units ''__defineGetter__'',
      units ''__defineSetter__'', units ''__lookupGetter__'', units ''__lookupSetter__'']"

text \<open>The values \<open>mapTahRole\<close> can receive and return: \<open>undefined\<close>, a string, or
  the member of \<open>Object.prototype\<close> of the given name.\<close>

datatype js_value = Undefined | Str "nat list" | ObjectMember "nat list"

definition roleTableGet :: "nat list \<Rightarrow> js_value" where
  "roleTableGet name =
     (case map_of TAH_ROLE_MAPPING name of
        Some v \<Rightarrow> Str v
      | None \<Rightarrow> if name \<in> set objectPrototypeNames then ObjectMember name
                else Undefined)"

text \<open>\<open>mapTahRole\<close>. A value without a \<open>toLowerCase\<close> method makes the call a
  TypeError.\<close>

definition mapTahRole :: "caseLibrary \<Rightarrow> js_value \<Rightarrow> js_error + js_value" where
  "mapTahRole lib tahRole =
     (case tahRole of
        Undefined \<Rightarrow> Inr (Str (units ''USER''))
      | ObjectMember n \<Rightarrow> Inl TypeError
      | Str r \<Rightarrow>
          if r = [] then Inr (Str (units ''USER''))
          else (case roleTableGet (trim (toLowerCase lib r)) of
                  Undefined \<Rightarrow> Inr (Str (toUpperCase lib r))
                | Str v \<Rightarrow> Inr (Str v)
                | ObjectMember n \<Rightarrow> Inr (ObjectMember n)))"

text \<open>Mapping twice, as the composition \<open>mapTahRole(mapTahRole(r))\<close>.\<close>

definition mapTahRoleTwice :: "caseLibrary \<Rightarrow> js_value \<Rightarrow> js_error + js_value" where
  "mapTahRoleTwice lib tahRole =
     (case mapTahRole lib tahRole of Inl e \<Rightarrow> Inl e | Inr v \<Rightarrow> mapTahRole lib v)"


section \<open>TAH middleware (first file of src/unnamed/part_005)\<close>

text \<open>The part holds two versions of this middleware. The cache, the classifier and
  the guard are the same in both; the conversion of a key is that of the first.\<close>

subsection \<open>JWKS cache\<close>

text \<open>A key of the key set and the key-set document, with the members the code reads.\<close>

record jwk =
  jwk_kid :: "string option"
  jwk_kty :: "string option"
  jwk_x5c :: "string list option"
  jwk_n :: "string option"
  jwk_e :: "string option"

record jwks =
  jwks_keys :: "jwk list option"

text \<open>
  What \<open>response.json()\<close> can give for the body of an answer: \<open>null\<close>; another
  falsy value, which is \<open>false\<close>, \<open>0\<close> or the empty string; or a document. The first
  two are falsy and the third is truthy. Reading the member \<open>keys\<close> of \<open>null\<close> is a
  TypeError; the other falsy values have no such member.
\<close>

datatype jwksBody = JsonNull | JsonFalsy | JsonDocument jwks

definition jsonTruthy :: "jwksBody \<Rightarrow> bool" where
  "jsonTruthy body = (case body of JsonDocument doc \<Rightarrow> True | _ \<Rightarrow> False)"

text \<open>The module variables \<open>jwksCache\<close>, which is \<open>null\<close> at the start, and
  \<open>jwksCacheExpiry\<close>, and a counter of the calls of \<open>fetch\<close>, which the code does not
  have: it makes the network visible.\<close>

record jwksState =
  jwksCache :: jwksBody
  jwksCacheExpiry :: instant
  fetches :: nat

definition initialJwksState :: jwksState where
  "initialJwksState = \<lparr>jwksCache = JsonNull, jwksCacheExpiry = 0, fetches = 0\<rparr>"

text \<open>
  \<open>fetchJwks\<close>. The answer of the network is a parameter: \<open>Inr\<close> the body of an answer
  with an ok status, or \<open>Inl\<close> the error of a failed request, of a status that is not
  ok or of a body that is not JSON. It is consulted only where the code calls
  \<open>fetch\<close>. The body is stored in the cache whatever it is; the cache counts only when
  it is truthy, in the test before the request and in the handler of a failure.
\<close>

definition fetchJwks ::
  "tahConfig \<Rightarrow> instant \<Rightarrow> js_error + jwksBody \<Rightarrow> jwksState \<Rightarrow>
   (js_error + jwksBody) \<times> jwksState" where
  "fetchJwks cfg now network st =
     (if jsonTruthy (jwksCache st) \<and> now < jwksCacheExpiry st then (Inr (jwksCache st), st)
      else (case network of
              Inr body \<Rightarrow>
                (Inr body, st\<lparr>jwksCache := body,
                              jwksCacheExpiry := now + tah_jwksCacheTtl cfg * 1000,
                              fetches := fetches st + 1\<rparr>)
            | Inl err \<Rightarrow>
                if jsonTruthy (jwksCache st)
                then (Inr (jwksCache st), st\<lparr>fetches := fetches st + 1\<rparr>)
                else (Inl err, st\<lparr>fetches := fetches st + 1\<rparr>)))"

text \<open>\<open>jwkToPem\<close>. The export of an RSA key by the crypto library is a parameter.\<close>

definition rsaJwkToPem :: "(string \<Rightarrow> string \<Rightarrow> js_error + string) \<Rightarrow> jwk \<Rightarrow> js_error + string" where
  "rsaJwkToPem rsaToPem k =
     (if jwk_kty k = Some ''RSA'' \<and> truthy (jwk_n k) \<and> truthy (jwk_e k)
      then rsaToPem (the_default [] (jwk_n k)) (the_default [] (jwk_e k))
      else Inl (Thrown (''Unsupported key type: '' @ the_default ''undefined'' (jwk_kty k))))"

definition jwkToPem :: "(string \<Rightarrow> string \<Rightarrow> js_error + string) \<Rightarrow> jwk \<Rightarrow> js_error + string" where
  "jwkToPem rsaToPem k =
     (case jwk_x5c k of
        Some (c # cs) \<Rightarrow>
          if c \<noteq> []
          then Inr (''-----BEGIN CERTIFICATE-----'' @ [CHR 0x0A] @ c @ [CHR 0x0A] @
                    ''-----END CERTIFICATE-----'')
          else rsaJwkToPem rsaToPem k
      | _ \<Rightarrow> rsaJwkToPem rsaToPem k)"

text \<open>The search of a key set for a key id, and its conversion: the part of
  \<open>getSigningKey\<close> after \<open>fetchJwks\<close> has returned a document.\<close>

definition searchJwks ::
  "(string \<Rightarrow> string \<Rightarrow> js_error + string) \<Rightarrow> jwks \<Rightarrow> string option \<Rightarrow> js_error + string" where
  "searchJwks rsaToPem doc kid =
     (case (case jwks_keys doc of None \<Rightarrow> None
            | Some ks \<Rightarrow> find (\<lambda>k. jwk_kid k = kid) ks) of
        None \<Rightarrow> Inl (Thrown (''Signing key not found: '' @ the_default ''undefined'' kid))
      | Some k \<Rightarrow> jwkToPem rsaToPem k)"

text \<open>\<open>getSigningKey\<close>. When \<open>fetchJwks\<close> returns \<open>null\<close>, \<open>jwks.keys\<close> is a
  TypeError; when it returns another falsy value there is no key to find.\<close>

definition getSigningKey ::
  "tahConfig \<Rightarrow> (string \<Rightarrow> string \<Rightarrow> js_error + string) \<Rightarrow> instant \<Rightarrow> js_error + jwksBody \<Rightarrow>
   string option \<Rightarrow> jwksState \<Rightarrow> (js_error + string) \<times> jwksState" where
  "getSigningKey cfg rsaToPem now network kid st =
     (if truthy (tah_publicKey cfg) then (Inr (the_default [] (tah_publicKey cfg)), st)
      else (case fetchJwks cfg now network st of
              (Inl err, st') \<Rightarrow> (Inl err, st')
            | (Inr JsonNull, st') \<Rightarrow> (Inl TypeError, st')
            | (Inr JsonFalsy, st') \<Rightarrow>
                (Inl (Thrown (''Signing key not found: '' @ the_default ''undefined'' kid)), st')
            | (Inr (JsonDocument doc), st') \<Rightarrow> (searchJwks rsaToPem doc kid, st')))"

subsection \<open>Token classifier\<close>

text \<open>
  What \<open>jwt.decode(token, { complete: true })\<close> gives: it throws, or returns \<open>null\<close>,
  or returns an object whose \<open>payload\<close> is \<open>null\<close> or has members. Of the payload the
  classifier reads \<open>iss\<close> and \<open>aud\<close>; an issuer that is not a string is never equal to
  the configured one and is \<open>None\<close> here, and of an audience array only the strings
  matter to \<open>includes\<close>.
\<close>

datatype audClaim = AudAbsent | AudString string | AudList "string list"

datatype payloadJson = PayloadNull | Payload (pl_iss: "string option") (pl_aud: audClaim)

datatype decodeResult = DecodeThrows | DecodeNull | Decoded payloadJson

text \<open>The body of the \<open>try\<close> block of \<open>isTahToken\<close>, and the function with its
  \<open>catch\<close>, which returns false for whatever was thrown.\<close>

definition isTahTokenTry :: "tahConfig \<Rightarrow> (string \<Rightarrow> decodeResult) \<Rightarrow> string \<Rightarrow> js_error + bool" where
  "isTahTokenTry cfg decode token =
     (case decode token of
        DecodeThrows \<Rightarrow> Inl (Thrown ''decode'')
      | DecodeNull \<Rightarrow> Inr False
      | Decoded PayloadNull \<Rightarrow> Inl TypeError
      | Decoded (Payload iss aud) \<Rightarrow>
          if iss = Some (tah_issuer cfg) then Inr True
          else (case aud of
                  AudList xs \<Rightarrow> if tah_audience cfg \<in> set xs then Inr True else Inr False
                | _ \<Rightarrow> Inr False))"

definition isTahToken :: "tahConfig \<Rightarrow> (string \<Rightarrow> decodeResult) \<Rightarrow> string \<Rightarrow> js_error + bool" where
  "isTahToken cfg decode token =
     (case isTahTokenTry cfg decode token of Inl err \<Rightarrow> Inr False | Inr b \<Rightarrow> Inr b)"

text \<open>What the specification asks of the classifier, in its words: the issuer equals
  the configured one, or the audience, scalar or list, contains the configured value.\<close>

definition looksExternalSpec :: "tahConfig \<Rightarrow> payloadJson \<Rightarrow> bool" where
  "looksExternalSpec cfg p =
     (case p of
        PayloadNull \<Rightarrow> False
      | Payload iss aud \<Rightarrow>
          iss = Some (tah_issuer cfg) \<or>
          (case aud of
             AudAbsent \<Rightarrow> False
           | AudString a \<Rightarrow> a = tah_audience cfg
           | AudList xs \<Rightarrow> tah_audience cfg \<in> set xs))"

subsection \<open>Permission guards\<close>

text \<open>\<open>s.split(sep)\<close> for a separator of one character: the segments between the
  separators, at least one.\<close>

fun split :: "char \<Rightarrow> string \<Rightarrow> string list" where
  "split sep [] = [[]]"
| "split sep (c # cs) =
     (if c = sep then [] # split sep cs
      else (case split sep cs of
              [] \<Rightarrow> [[c]]
            | seg # segs \<Rightarrow> (c # seg) # segs))"

text \<open>\<open>const [x] = xs\<close> and \<open>const [x, y] = xs\<close>: a missing element is
  \<open>undefined\<close>.\<close>

definition first :: "string list \<Rightarrow> string option" where
  "first xs = (case xs of [] \<Rightarrow> None | x # _ \<Rightarrow> Some x)"

definition second :: "string list \<Rightarrow> string option" where
  "second xs = (case xs of x # y # _ \<Rightarrow> Some y | _ \<Rightarrow> None)"

text \<open>The predicate \<open>checkTahPermission\<close> gives to \<open>permissions.some\<close>.\<close>

definition tahPermissionGrants :: "string \<Rightarrow> string \<Rightarrow> string \<Rightarrow> bool" where
  "tahPermissionGrants featureId action p =
     (let resource = first (split CHR '':'' p);
          allowedAction = second (split CHR '':'' p)
      in if resource = Some ''*'' \<or> allowedAction = Some ''*'' then True
         else if p = featureId @ '':'' @ action then True
         else if p = featureId @ '':*'' then True
         else resource = first (split CHR ''.'' featureId) \<and>
              (allowedAction = Some ''*'' \<or> allowedAction = Some action))"

definition checkTahPermission :: "string \<Rightarrow> string \<Rightarrow> principal option \<Rightarrow> unit outcome" where
  "checkTahPermission featureId action user =
     (case user of
        None \<Rightarrow> Next ()
      | Some u \<Rightarrow>
          if p_authSource u \<noteq> Some ''tah'' then Next ()
          else if list_ex (tahPermissionGrants featureId action)
                    (the_default [] (p_permissions u))
          then Next ()
          else Reply (Response 403 ''Insufficient permissions''))"


section \<open>Authentication middleware (middleware/auth.middleware.js)\<close>

text \<open>\<open>extractToken\<close> is \<open>bearerToken\<close> of the Authorization header.\<close>

definition extractToken :: "request \<Rightarrow> string option" where
  "extractToken req = bearerToken (authorization req)"

text \<open>\<open>validateLocalToken\<close>; \<open>verifyAccessToken\<close> is \<open>None\<close> when it throws.\<close>

definition validateLocalToken ::
  "(string \<Rightarrow> claims option) \<Rightarrow> string \<Rightarrow> js_error + principal" where
  "validateLocalToken verifyAccessToken token =
     (case verifyAccessToken token of
        None \<Rightarrow> Inl (Thrown ''Invalid or expired token'')
      | Some decoded \<Rightarrow>
          Inr \<lparr>p_id = js_or (c_userId decoded) (c_id decoded),
               p_userId = js_or (c_userId decoded) (c_id decoded),
               p_tahUserId = None,
               p_email = c_email decoded,
               p_name = js_or (c_fullName decoded) (c_name decoded),
               p_fullName = c_fullName decoded,
               p_role = js_or (c_role decoded)
                          (js_or (case c_roles decoded of Some (r # _) \<Rightarrow> Some r | _ \<Rightarrow> None)
                             (Some ''USER'')),
               p_roles = rolesOfClaims decoded,
               p_perfis = Some (the_default [] (c_perfis decoded)),
               p_orgId = js_or (c_orgId decoded) None,
               p_orgName = None,
               p_orgIds = Some (the_default [] (c_orgIds decoded)),
               p_orgRole = js_or (c_orgRole decoded) None,
               p_permissions = None,
               p_authSource = Some ''local''\<rparr>)"

text \<open>What \<open>validateTahToken\<close> returns, with the members \<open>validateToken\<close> reads.\<close>

record tahUser =
  t_userId :: "string option"
  t_tahUserId :: "string option"
  t_email :: "string option"
  t_name :: "string option"
  t_fullName :: "string option"
  t_roles :: "string list option"
  t_orgId :: "string option"
  t_orgName :: "string option"
  t_orgIds :: "string list option"
  t_orgRole :: "string option"
  t_permissions :: "string list option"

text \<open>
  The surroundings of the middleware: the variables of the environment that the
  module reads once for the development bypass, the configuration, and the functions
  of other modules and libraries it calls. \<open>tahValidator\<close> stands for
  \<open>validateTahToken\<close> (signature, issuer, audience and expiry against the signing
  key), \<open>jwtDecode\<close> for \<open>jwt.decode\<close>, which \<open>isTahToken\<close> calls, and
  \<open>localVerifier\<close> for \<open>verifyAccessToken\<close>.
\<close>

record authEnv =
  DEV_AUTH_BYPASS :: "string option"
  DEV_USER_ID :: "string option"
  DEV_USER_EMAIL :: "string option"
  DEV_USER_ROLE :: "string option"
  DEV_ORG_ID :: "string option"
  AUTH_MODE :: string
  TAH_CONFIG :: tahConfig
  jwtDecode :: "string \<Rightarrow> decodeResult"
  tahValidator :: "string \<Rightarrow> js_error + tahUser"
  localVerifier :: "string \<Rightarrow> claims option"

definition AUTH_BYPASS_ENABLED :: "authEnv \<Rightarrow> bool" where
  "AUTH_BYPASS_ENABLED env = (DEV_AUTH_BYPASS env = Some ''true'')"

definition DEV_USER :: "authEnv \<Rightarrow> principal" where
  "DEV_USER env =
     \<lparr>p_id = js_or (DEV_USER_ID env) (Some ''dev-user''),
      p_userId = js_or (DEV_USER_ID env) (Some ''dev-user''),
      p_tahUserId = None,
      p_email = js_or (DEV_USER_EMAIL env) (Some ''dev@example.com''),
      p_name = None, p_fullName = None,
      p_role = js_or (DEV_USER_ROLE env) (Some ''DEVELOPER''),
      p_roles = [the_default [] (js_or (DEV_USER_ROLE env) (Some ''DEVELOPER''))],
      p_perfis = None,
      p_orgId = js_or (DEV_ORG_ID env) None,
      p_orgName = None, p_orgIds = None, p_orgRole = None, p_permissions = None,
      p_authSource = Some ''dev-bypass''\<rparr>"

definition validateToken :: "authEnv \<Rightarrow> string \<Rightarrow> js_error + principal" where
  "validateToken env token =
     (if isTahEnabled (TAH_CONFIG env) (AUTH_MODE env) \<and>
         isTahToken (TAH_CONFIG env) (jwtDecode env) token = Inr True
      then (case tahValidator env token of
              Inl err \<Rightarrow> Inl err
            | Inr u \<Rightarrow>
                Inr \<lparr>p_id = t_userId u, p_userId = t_userId u, p_tahUserId = t_tahUserId u,
                     p_email = t_email u, p_name = t_name u, p_fullName = t_fullName u,
                     p_role = js_or (case t_roles u of Some (r # _) \<Rightarrow> Some r | _ \<Rightarrow> None)
                                (Some ''USER''),
                     p_roles = the_default [''USER''] (t_roles u),
                     p_perfis = None,
                     p_orgId = t_orgId u, p_orgName = t_orgName u,
                     p_orgIds = Some (the_default [] (t_orgIds u)),
                     p_orgRole = t_orgRole u,
                     p_permissions = Some (the_default [] (t_permissions u)),
                     p_authSource = Some ''tah''\<rparr>)
      else if isLocalEnabled (AUTH_MODE env)
      then validateLocalToken (localVerifier env) token
      else Inl (Thrown ''No valid authentication method available''))"

text \<open>\<open>applyDevBypass\<close>: the user it attaches, if the flag is set.\<close>

definition applyDevBypass :: "authEnv \<Rightarrow> principal option" where
  "applyDevBypass env = (if \<not> AUTH_BYPASS_ENABLED env then None else Some (DEV_USER env))"

text \<open>\<open>authenticate\<close>: \<open>Next u\<close> is \<open>next()\<close> with \<open>req.user = u\<close>.\<close>

definition authenticate :: "authEnv \<Rightarrow> request \<Rightarrow> principal outcome" where
  "authenticate env req =
     (if \<not> truthy (extractToken req)
      then (case applyDevBypass env of
              Some u \<Rightarrow> Next u
            | None \<Rightarrow> Reply (Response 401 ''No token provided''))
      else (case validateToken env (the_default [] (extractToken req)) of
              Inl err \<Rightarrow> Reply (Response 401 ''Invalid or expired token'')
            | Inr user \<Rightarrow> Next user))"

text \<open>\<open>optionalAuth\<close> always calls \<open>next()\<close>; the value is \<open>req.user\<close>, if any.\<close>

definition optionalAuth :: "authEnv \<Rightarrow> request \<Rightarrow> principal option" where
  "optionalAuth env req =
     (if truthy (extractToken req)
      then (case validateToken env (the_default [] (extractToken req)) of
              Inl err \<Rightarrow> None
            | Inr user \<Rightarrow> Some user)
      else if AUTH_BYPASS_ENABLED env then Some (DEV_USER env)
      else None)"

text \<open>The predicate \<open>checkPermission\<close> gives to \<open>permissions.some\<close>, and the
  guard.\<close>

definition permissionGrants :: "string \<Rightarrow> string \<Rightarrow> string \<Rightarrow> bool" where
  "permissionGrants featureId action p =
     (if p = ''*'' \<or> p = ''*:*'' then True
      else if p = featureId @ '':*'' then True
      else if p = featureId @ '':'' @ action then True
      else p = the_default [] (first (split CHR ''.'' featureId)) @ '':*'' \<or>
           p = the_default [] (first (split CHR ''.'' featureId)) @ '':'' @ action)"

definition checkPermission :: "string \<Rightarrow> string \<Rightarrow> principal option \<Rightarrow> unit outcome" where
  "checkPermission featureId action user =
     (case user of
        None \<Rightarrow> Reply (Response 401 ''Authentication required'')
      | Some u \<Rightarrow>
          if p_authSource u = Some ''tah''
          then (if list_ex (permissionGrants featureId action)
                     (the_default [] (p_permissions u))
                then Next ()
                else Reply (Response 403 ''Feature access denied''))
          else Next ())"

text \<open>The category of a feature id, in the words of the specification: what stands
  before its first dot.\<close>

definition categoryOf :: "string \<Rightarrow> string" where
  "categoryOf featureId = takeWhile (\<lambda>c. c \<noteq> CHR ''.'') featureId"


section \<open>API key routes (src/unnamed/part_006)\<close>

text \<open>\<open>generateApiKey\<close>: the prefix and the hexadecimal form of 32 random bytes,
  which is a parameter.\<close>

definition generateApiKey :: "string \<Rightarrow> string" where
  "generateApiKey randomHex = ''kvr_'' @ randomHex"

text \<open>A JSON value; an object is the list of its members in order.\<close>

datatype json =
  JNull | JBool bool | JNum int | JStr string | JArr "json list" | JObj "(string \<times> json) list"

text \<open>The JSON of a column that may be \<open>null\<close>, and of a list of strings.\<close>

definition jOptStr :: "string option \<Rightarrow> json" where
  "jOptStr v = (case v of None \<Rightarrow> JNull | Some s \<Rightarrow> JStr s)"

definition jOptNum :: "int option \<Rightarrow> json" where
  "jOptNum v = (case v of None \<Rightarrow> JNull | Some n \<Rightarrow> JNum n)"

definition jStrs :: "string list \<Rightarrow> json" where
  "jStrs xs = JArr (map JStr xs)"

datatype httpResponse = Http (http_status: nat) (http_body: json)

text \<open>\<open>getTenantContext\<close> on a request that \<open>authenticate\<close> has passed: \<open>req.org\<close>
  is not set by that middleware, so the org id is that of \<open>req.user\<close>.\<close>

record tenantContext =
  tc_userId :: "string option"
  tc_orgId :: "string option"
  tc_authSource :: string
  tc_permissions :: "string list"

definition getTenantContext :: "principal \<Rightarrow> tenantContext" where
  "getTenantContext user =
     \<lparr>tc_userId = js_or (p_id user) (js_or (p_userId user) None),
      tc_orgId = js_or (p_orgId user) None,
      tc_authSource = (if truthy (p_authSource user) then the_default [] (p_authSource user)
                       else ''local''),
      tc_permissions = the_default [] (p_permissions user)\<rparr>"

text \<open>\<open>buildTenantFilter\<close>: the \<open>where\<close> clause on \<open>orgId\<close>, on \<open>userId\<close>, or none.\<close>

datatype tenantFilter = ByOrg string | ByUser string | NoFilter

definition buildTenantFilter :: "tenantContext \<Rightarrow> tenantFilter" where
  "buildTenantFilter context =
     (if truthy (tc_orgId context) then ByOrg (the_default [] (tc_orgId context))
      else if truthy (tc_userId context) then ByUser (the_default [] (tc_userId context))
      else NoFilter)"

definition matchesFilter :: "tenantFilter \<Rightarrow> ApiKey \<Rightarrow> bool" where
  "matchesFilter f k =
     (case f of
        ByOrg orgId \<Rightarrow> ak_orgId k = Some orgId
      | ByUser userId \<Rightarrow> ak_userId k = userId
      | NoFilter \<Rightarrow> True)"

text \<open>The \<open>select\<close> clauses of the three read handlers, as the objects Prisma
  returns for a row.\<close>

definition selectList :: "ApiKey \<Rightarrow> (string \<times> json) list" where
  "selectList k =
     [(''id'', JStr (ak_id k)),
      (''name'', JStr (ak_name k)),
      (''description'', jOptStr (ak_description k)),
      (''keyPrefix'', JStr (ak_keyPrefix k)),
      (''scopes'', jStrs (ak_scopes k)),
      (''workflowIds'', jStrs (ak_workflowIds k)),
      (''rateLimit'', JNum (ak_rateLimit k)),
      (''usageCount'', JNum (int (ak_usageCount k))),
      (''lastUsedAt'', jOptNum (ak_lastUsedAt k)),
      (''lastUsedIp'', jOptStr (ak_lastUsedIp k)),
      (''expiresAt'', jOptNum (ak_expiresAt k)),
      (''isActive'', JBool (ak_isActive k)),
      (''createdAt'', JNum (ak_createdAt k)),
      (''updatedAt'', JNum (ak_updatedAt k))]"

definition selectGet :: "ApiKey \<Rightarrow> (string \<times> json) list" where
  "selectGet k =
     [(''id'', JStr (ak_id k)),
      (''name'', JStr (ak_name k)),
      (''description'', jOptStr (ak_description k)),
      (''keyPrefix'', JStr (ak_keyPrefix k)),
      (''scopes'', jStrs (ak_scopes k)),
      (''workflowIds'', jStrs (ak_workflowIds k)),
      (''rateLimit'', JNum (ak_rateLimit k)),
      (''rateLimitUsed'', JNum (int (ak_rateLimitUsed k))),
      (''rateLimitReset'', jOptNum (ak_rateLimitReset k)),
      (''usageCount'', JNum (int (ak_usageCount k))),
      (''lastUsedAt'', jOptNum (ak_lastUsedAt k)),
      (''lastUsedIp'', jOptStr (ak_lastUsedIp k)),
      (''expiresAt'', jOptNum (ak_expiresAt k)),
      (''isActive'', JBool (ak_isActive k)),
      (''createdAt'', JNum (ak_createdAt k)),
      (''updatedAt'', JNum (ak_updatedAt k))]"

definition selectStats :: "ApiKey \<Rightarrow> (string \<times> json) list" where
  "selectStats k =
     [(''id'', JStr (ak_id k)),
      (''name'', JStr (ak_name k)),
      (''usageCount'', JNum (int (ak_usageCount k))),
      (''rateLimit'', JNum (ak_rateLimit k)),
      (''rateLimitUsed'', JNum (int (ak_rateLimitUsed k))),
      (''rateLimitReset'', jOptNum (ak_rateLimitReset k)),
      (''lastUsedAt'', jOptNum (ak_lastUsedAt k)),
      (''lastUsedIp'', jOptStr (ak_lastUsedIp k)),
      (''createdAt'', JNum (ak_createdAt k))]"

text \<open>
  \<open>GET /api-keys\<close>, after \<open>authenticate\<close> has attached \<open>user\<close>. \<open>orderBy: createdAt
  desc\<close> is a sort that keeps rows of equal creation time in the order of the table.
  The handlers answer 500 when Prisma throws; the table here always answers.
\<close>

definition listApiKeys :: "principal \<Rightarrow> string option \<Rightarrow> ApiKey list \<Rightarrow> httpResponse" where
  "listApiKeys user includeInactive db =
     (let tenantFilter = buildTenantFilter (getTenantContext user);
          apiKeys = sort_key (\<lambda>k. - ak_createdAt k)
                      (filter (\<lambda>k. matchesFilter tenantFilter k \<and>
                                    (truthy includeInactive \<or> ak_isActive k)) db)
      in Http 200 (JObj [(''success'', JBool True),
                         (''data'', JArr (map (\<lambda>k. JObj (selectList k)) apiKeys))]))"

text \<open>\<open>GET /api-keys/:id\<close>.\<close>

definition getApiKey :: "principal \<Rightarrow> string \<Rightarrow> ApiKey list \<Rightarrow> httpResponse" where
  "getApiKey user keyId db =
     (let tenantFilter = buildTenantFilter (getTenantContext user)
      in case find (\<lambda>k. ak_id k = keyId \<and> matchesFilter tenantFilter k) db of
           None \<Rightarrow> Http 404 (JObj [(''success'', JBool False),
                                   (''error'', JStr ''API Key not found'')])
         | Some apiKey \<Rightarrow> Http 200 (JObj [(''success'', JBool True),
                                          (''data'', JObj (selectGet apiKey))]))"

text \<open>\<open>GET /api-keys/:id/stats\<close>, at the instant \<open>now\<close>.\<close>

definition getApiKeyStats :: "instant \<Rightarrow> principal \<Rightarrow> string \<Rightarrow> ApiKey list \<Rightarrow> httpResponse" where
  "getApiKeyStats now user keyId db =
     (let tenantFilter = buildTenantFilter (getTenantContext user)
      in case find (\<lambda>k. ak_id k = keyId \<and> matchesFilter tenantFilter k) db of
           None \<Rightarrow> Http 404 (JObj [(''success'', JBool False),
                                   (''error'', JStr ''API Key not found'')])
         | Some apiKey \<Rightarrow>
             let rateLimitRemaining =
                   (if (case ak_rateLimitReset apiKey of None \<Rightarrow> False | Some r \<Rightarrow> now < r)
                    then ak_rateLimit apiKey - int (ak_rateLimitUsed apiKey)
                    else ak_rateLimit apiKey)
             in Http 200
                  (JObj [(''success'', JBool True),
                         (''data'',
                          JObj (selectStats apiKey @
                                [(''rateLimitRemaining'', JNum rateLimitRemaining),
                                 (''rateLimitResetIn'',
                                  (case ak_rateLimitReset apiKey of
                                     None \<Rightarrow> JNull
                                   | Some r \<Rightarrow> JNum (max 0 (r - now))))]))]))"

text \<open>Two tables differ at most in the \<open>keyHash\<close> column when they agree once
  that column is blanked.\<close>

definition eraseHash :: "ApiKey \<Rightarrow> ApiKey" where
  "eraseHash k = k\<lparr>ak_keyHash := []\<rparr>"

definition sameButHashes :: "ApiKey list \<Rightarrow> ApiKey list \<Rightarrow> bool" where
  "sameButHashes db1 db2 = (map eraseHash db1 = map eraseHash db2)"

text \<open>The names of the members of a JSON value, at any depth.\<close>

fun memberNames :: "json \<Rightarrow> string list" where
  "memberNames (JObj ms) = concat (map (\<lambda>(n, v). n # memberNames v) ms)"
| "memberNames (JArr xs) = concat (map memberNames xs)"
| "memberNames _ = []"


section \<open>Scenarios and concrete inputs\<close>

text \<open>
  A run of validations of one key, each followed by the usage update, as the
  middleware does them one after the other: the run gives the table at its end when
  every validation found the window still open and returned the key, and \<open>None\<close>
  otherwise. Each call has its instant, required scope, resource id and requested
  organization.
\<close>

fun usesInWindow ::
  "(string \<Rightarrow> string) \<Rightarrow> string \<Rightarrow> string option \<Rightarrow>
   (instant \<times> string option \<times> string option \<times> string option) list \<Rightarrow> ApiKey list \<Rightarrow>
   ApiKey list option" where
  "usesInWindow hashApiKey key clientIp [] db = Some db"
| "usesInWindow hashApiKey key clientIp ((now, scope, resourceId, orgId) # calls) db =
     (case findByHash db (hashApiKey key) of
        None \<Rightarrow> None
      | Some row \<Rightarrow>
          if windowElapsed row now then None
          else (case validateApiKey hashApiKey now db key scope resourceId orgId of
                  (Invalid e l, db') \<Rightarrow> None
                | (Valid k, db') \<Rightarrow>
                    (case updateApiKeyUsage now (ak_id k) clientIp db' of
                       Inl e \<Rightarrow> None
                     | Inr db'' \<Rightarrow> usesInWindow hashApiKey key clientIp calls db'')))"

text \<open>A request whose only credential is a key made by \<open>generateApiKey\<close>, in the
  \<open>X-API-Key\<close> header; and one such key, with its 64 hexadecimal digits.\<close>

definition kvrRequest :: "string \<Rightarrow> request" where
  "kvrRequest randomHex = \<lparr>x_api_key = Some (generateApiKey randomHex), authorization = None,
     x_organization_id = None, params = (\<lambda>_. None), ip = None\<rparr>"

definition exampleHex :: string where
  "exampleHex = ''0123456789abcdef0123456789abcdef0123456789abcdef0123456789abcdef''"

text \<open>A key with a limit of five requests, not yet used, and the same key after five
  uses at the instants 1 to 5; for the examples the hash function is the identity.\<close>

definition freshKey :: ApiKey where
  "freshKey = \<lparr>ak_id = ''key-1'', ak_userId = ''user-1'', ak_orgId = None, ak_name = ''ci'',
     ak_description = None, ak_keyHash = ''sk_live'', ak_keyPrefix = ''sk_live'',
     ak_scopes = [''resources:read''], ak_projectIds = [], ak_workflowIds = [],
     ak_rateLimit = 5, ak_rateLimitUsed = 0, ak_rateLimitReset = None, ak_usageCount = 0,
     ak_lastUsedAt = None, ak_lastUsedIp = None, ak_expiresAt = None, ak_isActive = True,
     ak_createdAt = 0, ak_updatedAt = 0\<rparr>"

definition fiveCalls :: "(instant \<times> string option \<times> string option \<times> string option) list" where
  "fiveCalls = [(1, None, None, None), (2, None, None, None), (3, None, None, None),
                (4, None, None, None), (5, None, None, None)]"

definition usedKey :: ApiKey where
  "usedKey = freshKey\<lparr>ak_usageCount := 5, ak_rateLimitUsed := 5, ak_lastUsedAt := Some 5,
     ak_rateLimitReset := Some 3600001\<rparr>"



text \<open>A local token whose \<open>roles\<close> claim is the empty array.\<close>

definition emptyRolesToken :: claims where
  "emptyRolesToken = \<lparr>c_userId = Some ''user-1'', c_id = None,
     c_email = Some ''a@example.com'', c_name = None, c_fullName = None, c_role = None,
     c_roles = Some [], c_perfis = None, c_orgId = None, c_orgIds = None,
     c_orgRole = None\<rparr>"

text \<open>A configuration without a static key, and a key set with one certificate.\<close>

definition exampleConfig :: tahConfig where
  "exampleConfig = \<lparr>tah_enabled = True, tah_issuer = ''https://tah.example.com'',
     tah_jwksUrl = ''https://tah.example.com/.well-known/jwks.json'',
     tah_audience = ''kvr'', tah_publicKey = None, tah_appId = ''kvr'',
     tah_jwksCacheTtl = 3600, tah_clockTolerance = 30\<rparr>"

definition exampleJwks :: jwks where
  "exampleJwks = \<lparr>jwks_keys = Some [\<lparr>jwk_kid = Some ''kid-1'', jwk_kty = Some ''RSA'',
     jwk_x5c = Some [''MIIB''], jwk_n = None, jwk_e = None\<rparr>]\<rparr>"

definition noRsa :: "string \<Rightarrow> string \<Rightarrow> js_error + string" where
  "noRsa n e = Inl (Thrown ''unused'')"

text \<open>A library that changes nothing, for the examples: their code units are all
  tabulated, so that the library is not consulted.\<close>

definition unusedLibrary :: caseLibrary where
  "unusedLibrary = \<lparr>libToLowerCase = (\<lambda>s. s), libToUpperCase = (\<lambda>s. s)\<rparr>"

text \<open>An externally authenticated user with a given permission list.\<close>

definition tahUserWith :: "string list \<Rightarrow> principal" where
  "tahUserWith perms = \<lparr>p_id = Some ''user-1'', p_userId = Some ''user-1'',
     p_tahUserId = Some ''user-1'', p_email = Some ''a@example.com'', p_name = None,
     p_fullName = None, p_role = Some ''USER'', p_roles = [''USER''], p_perfis = None,
     p_orgId = None, p_orgName = None, p_orgIds = Some [], p_orgRole = None,
     p_permissions = Some perms, p_authSource = Some ''tah''\<rparr>"

text \<open>Surroundings with the development bypass switched on, in which no token
  validates.\<close>

definition bypassEnv :: authEnv where
  "bypassEnv = \<lparr>DEV_AUTH_BYPASS = Some ''true'', DEV_USER_ID = None, DEV_USER_EMAIL = None,
     DEV_USER_ROLE = None, DEV_ORG_ID = None,
     AUTH_MODE = ''dual'', TAH_CONFIG = exampleConfig, jwtDecode = (\<lambda>t. DecodeNull),
     tahValidator = (\<lambda>t. Inl (Thrown ''Invalid token format'')),
     localVerifier = (\<lambda>t. None)\<rparr>"

definition expiredTokenRequest :: request where
  "expiredTokenRequest = \<lparr>x_api_key = None, authorization = Some ''Bearer expired.jwt'',
     x_organization_id = None, params = (\<lambda>_. None), ip = None\<rparr>"


section \<open>The API key middleware: extraction, organization check, rate limit\<close>

lemmas extract_defs =
  extractApiKey_def hasValidPrefix_def validPrefixes_def startsWith_def bearerToken_def

lemmas validate_defs =
  validateApiKey_def findByHash_def findById_def updateById_def updateApiKeyUsage_def
  expiredAt_def orgMismatch_def windowElapsed_def scopeMissing_def workflowDenied_def
  truthy_def the_default_def js_or_def

text \<open>A key made by \<open>generateApiKey\<close> is not taken from the header, whatever its
  random part and whatever the rest of the request is: the header is as good as
  absent.\<close>

lemma kvr_header_ignored:
  "extractApiKey (req\<lparr>x_api_key := Some (generateApiKey randomHex)\<rparr>) =
   extractApiKey (req\<lparr>x_api_key := None\<rparr>)"
  by (simp add: extract_defs generateApiKey_def)

text \<open>With one of the three prefixes of the list, a key whose hash is not in the table
  is answered 401 \<open>Invalid API key\<close>.\<close>

lemma listed_prefix_unknown_hash:
  assumes "x_api_key req = Some (''sk_'' @ randomHex)"
    and "findByHash db (hashApiKey (''sk_'' @ randomHex)) = None"
  shows "authenticateHybrid hashApiKey verifyAccessToken now scope resourceIdParam users db req =
         (Reply (Response 401 ''Invalid API key''), db)"
  using assms
  by (simp add: authenticateHybrid_def hybridApiKey_def validateApiKey_def extract_defs Let_def)

text \<open>
  Claim C1. A request that presents a key of the form \<open>kvr_\<close> and 64 hexadecimal
  digits in \<open>X-API-Key\<close>, whose hash is in no row, should be recognized as an API key
  and answered 401 \<open>Invalid API key\<close>. The code does not do so: \<open>extractApiKey\<close>
  knows the prefixes \<open>orc_\<close>, \<open>ak_\<close> and \<open>sk_\<close> only, returns \<open>null\<close> for every key
  that \<open>generateApiKey\<close> issues, and \<open>authenticateHybrid\<close> goes on to look for a JWT;
  with no Authorization header the answer is 401 with the message for a request
  without any credential, for every table, hash function and instant.
\<close>

theorem kvr_key_not_recognized:
  "length exampleHex = 64 \<and>
   extractApiKey (kvrRequest exampleHex) = None \<and>
   authenticateHybrid hashApiKey verifyAccessToken now scope resourceIdParam users db
     (kvrRequest exampleHex) =
     (Reply (Response 401
        ''No authentication provided. Use X-API-Key header or Bearer token.''), db) \<and>
   extractApiKey (kvrRequest randomHex) = None \<and>
   authenticateHybrid hashApiKey verifyAccessToken now scope resourceIdParam users db
     (kvrRequest randomHex) =
     (Reply (Response 401
        ''No authentication provided. Use X-API-Key header or Bearer token.''), db)"
  by (simp add: kvrRequest_def exampleHex_def generateApiKey_def authenticateHybrid_def
        hybridJwt_def extract_defs)





subsection \<open>The window of the rate limit\<close>

lemma findById_distinct:
  "distinct (map ak_id db) \<Longrightarrow> k \<in> set db \<Longrightarrow> findById db (ak_id k) = Some k"
  unfolding findById_def
  by (induction db) (auto simp: rev_image_eqI)

lemma findByHash_in: "findByHash db h = Some k \<Longrightarrow> k \<in> set db \<and> ak_keyHash k = h"
  unfolding findByHash_def by (auto simp: find_Some_iff)

lemma findByHash_updateById:
  assumes "findByHash db h = Some k" and "\<And>r. ak_keyHash (f r) = ak_keyHash r"
  shows "findByHash (updateById (ak_id k) f db) h = Some (f k)"
  using assms unfolding findByHash_def updateById_def
  by (induction db) (auto split: if_splits)

lemma ids_updateById:
  assumes "\<And>r. ak_id (f r) = ak_id r"
  shows "map ak_id (updateById i f db) = map ak_id db"
  using assms unfolding updateById_def by (induction db) auto

text \<open>A validation that finds the window open and returns the key has written
  nothing, and the key is active.\<close>

lemma validate_in_window:
  assumes "findByHash db (h key) = Some k" and "\<not> windowElapsed k now"
    and "validateApiKey h now db key sc res org = (Valid k', db')"
  shows "db' = db \<and> k' = k \<and> ak_isActive k"
  using assms by (auto simp: validateApiKey_def Let_def split: if_splits)

text \<open>The usage update adds one to both counters of the row and keeps a reset instant
  that is already there.\<close>

lemma usage_row:
  assumes "distinct (map ak_id db)" and "findByHash db h = Some k"
  shows "\<exists>db''. updateApiKeyUsage now (ak_id k) cip db = Inr db'' \<and>
           map ak_id db'' = map ak_id db \<and>
           findByHash db'' h =
             Some (k\<lparr>ak_usageCount := ak_usageCount k + 1,
                     ak_rateLimitUsed := ak_rateLimitUsed k + 1,
                     ak_lastUsedAt := Some now,
                     ak_lastUsedIp := cip,
                     ak_rateLimitReset :=
                       Some (case ak_rateLimitReset k of
                               Some r0 \<Rightarrow> r0 | None \<Rightarrow> now + 3600000)\<rparr>)"
proof -
  have "findById db (ak_id k) = Some k"
    using assms findById_distinct findByHash_in by blast
  then show ?thesis
    using assms(2) by (simp add: updateApiKeyUsage_def ids_updateById findByHash_updateById)
qed

text \<open>After a run of validations in one window the counter of the row has grown by
  the length of the run; limit, activity, expiry and organization are as before.\<close>

lemma uses_invariant:
  assumes "usesInWindow h key cip calls db = Some db'"
    and "distinct (map ak_id db)" and "findByHash db (h key) = Some k"
  shows "\<exists>k'. findByHash db' (h key) = Some k' \<and> distinct (map ak_id db') \<and>
           ak_rateLimitUsed k' = ak_rateLimitUsed k + length calls \<and>
           ak_rateLimit k' = ak_rateLimit k \<and> ak_isActive k' = ak_isActive k \<and>
           (calls \<noteq> [] \<longrightarrow> ak_isActive k)"
  using assms
proof (induction calls arbitrary: db k)
  case Nil
  then show ?case by simp
next
  case (Cons c calls)
  obtain now sc res org where c: "c = (now, sc, res, org)" by (cases c) auto
  from Cons.prems(1) c Cons.prems(3) have nw: "\<not> windowElapsed k now"
    by (auto split: if_splits)
  from Cons.prems(1) c Cons.prems(3) nw obtain k1 db1 db2 where
     v: "validateApiKey h now db key sc res org = (Valid k1, db1)"
     and u: "updateApiKeyUsage now (ak_id k1) cip db1 = Inr db2"
     and r: "usesInWindow h key cip calls db2 = Some db'"
    by (auto split: prod.splits validation.splits sum.splits)
  from validate_in_window[OF Cons.prems(3) nw v]
  have e: "db1 = db" "k1 = k" "ak_isActive k" by auto
  from usage_row[OF Cons.prems(2,3), of now cip] u e obtain
    d2: "map ak_id db2 = map ak_id db" and
    f2: "findByHash db2 (h key) =
           Some (k\<lparr>ak_usageCount := ak_usageCount k + 1,
                   ak_rateLimitUsed := ak_rateLimitUsed k + 1,
                   ak_lastUsedAt := Some now,
                   ak_lastUsedIp := cip,
                   ak_rateLimitReset :=
                     Some (case ak_rateLimitReset k of
                             Some r0 \<Rightarrow> r0 | None \<Rightarrow> now + 3600000)\<rparr>)"
    by auto
  from d2 Cons.prems(2) have dd: "distinct (map ak_id db2)" by simp
  from Cons.IH[OF r dd f2] e show ?case by auto
qed

text \<open>A validation that reaches the comparison of the counter with the limit, in an
  open window, with the counter at the limit or above.\<close>

lemma validate_at_limit:
  assumes "findByHash db (h key) = Some k" and "ak_isActive k" and "\<not> expiredAt k now"
    and "\<not> orgMismatch k org" and "\<not> windowElapsed k now"
    and "ak_rateLimit k \<le> int (ak_rateLimitUsed k)"
  shows "validateApiKey h now db key sc res org = (Invalid ''Rate limit exceeded'' True, db)"
  using assms by (simp add: validateApiKey_def)

text \<open>A validation that passes the first checks never returns the key in an open
  window when the counter is at the limit.\<close>

lemma validate_at_limit_fails:
  assumes "findByHash db (h key) = Some k" and "\<not> windowElapsed k now"
    and "ak_rateLimit k \<le> int (ak_rateLimitUsed k)"
  shows "\<not> is_Valid (fst (validateApiKey h now db key sc res org))"
  using assms by (simp add: validateApiKey_def)

text \<open>A validation after the reset instant that passes the other checks.\<close>

lemma validate_after_reset:
  assumes "findByHash db (h key) = Some k" and "ak_isActive k" and "\<not> expiredAt k now"
    and "\<not> orgMismatch k org" and "windowElapsed k now" and "0 < ak_rateLimit k"
    and "\<not> scopeMissing k sc" and "\<not> workflowDenied k res"
  shows "validateApiKey h now db key sc res org =
           (Valid (k\<lparr>ak_rateLimitUsed := 0\<rparr>),
            updateById (ak_id k)
              (\<lambda>r. r\<lparr>ak_rateLimitUsed := 0, ak_rateLimitReset := Some (now + 3600000)\<rparr>) db) \<and>
         findByHash (snd (validateApiKey h now db key sc res org)) (h key) =
           Some (k\<lparr>ak_rateLimitUsed := 0, ak_rateLimitReset := Some (now + 3600000)\<rparr>)"
  using assms
  by (auto simp add: validateApiKey_def Let_def findByHash_updateById scopeMissing_def
        workflowDenied_def split: option.splits)

lemma five_uses: "usesInWindow (\<lambda>k. k) ''sk_live'' None fiveCalls [freshKey] = Some [usedKey]"
  by (simp add: fiveCalls_def freshKey_def usedKey_def validate_defs Let_def)

text \<open>
  Claim C3, as stated, fails in two places. First, the 6th validation in the window
  does not always give the reason of the rate limit: expiry and organization are
  checked before the counter, so a key that expires at the instant 100, validated and
  used at the instants 1 to 5 and validated again at 101, is answered
  \<open>API key has expired\<close>. Second, the reset instant is not moved by one hour: it is
  set to one hour after the instant of the validation, so a stored reset instant 0
  becomes 10800000 at the instant 7200000, not 3600000.
\<close>

theorem rate_limit_window_counterexample:
  "usesInWindow (\<lambda>k. k) ''sk_live'' None fiveCalls [freshKey\<lparr>ak_expiresAt := Some 100\<rparr>] =
     Some [usedKey\<lparr>ak_expiresAt := Some 100\<rparr>] \<and>
   \<not> windowElapsed (usedKey\<lparr>ak_expiresAt := Some 100\<rparr>) 101 \<and>
   validateApiKey (\<lambda>k. k) 101 [usedKey\<lparr>ak_expiresAt := Some 100\<rparr>] ''sk_live'' None None None =
     (Invalid ''API key has expired'' False, [usedKey\<lparr>ak_expiresAt := Some 100\<rparr>]) \<and>
   map ak_rateLimitReset
     (snd (validateApiKey (\<lambda>k. k) 7200000 [freshKey\<lparr>ak_rateLimitReset := Some 0\<rparr>] ''sk_live''
             None None None)) = [Some 10800000]"
  by (simp add: fiveCalls_def freshKey_def usedKey_def validate_defs Let_def)

text \<open>
  Claim C3, amended. For a key with \<open>rateLimit = 5\<close> in a table with distinct ids:
  after five validations that each returned the key and were each followed by the
  usage update, all in one window, a 6th validation in the same window never returns
  the key, and when the key has not expired by then and the requested organization
  does not differ from the key's, its result is the failure \<open>Rate limit exceeded\<close>
  with \<open>rateLimited = true\<close>, and the table is unchanged. And for a validation after
  the stored reset instant that passes all other checks: the stored counter becomes
  0, the stored reset instant becomes one hour (3600000 ms) after the instant of the
  validation, and the validation returns the key, with counter 0.
\<close>

theorem rate_limit_window:
  "(distinct (map ak_id db) \<and> findByHash db (h key) = Some k \<and> ak_rateLimit k = 5 \<and>
    length calls = 5 \<and> usesInWindow h key cip calls db = Some db5 \<and>
    findByHash db5 (h key) = Some k5 \<and> \<not> windowElapsed k5 now6
    \<longrightarrow> \<not> is_Valid (fst (validateApiKey h now6 db5 key sc6 res6 org6)) \<and>
        (\<not> expiredAt k5 now6 \<and> \<not> orgMismatch k5 org6 \<longrightarrow>
           validateApiKey h now6 db5 key sc6 res6 org6 =
             (Invalid ''Rate limit exceeded'' True, db5)))
   \<and>
   (findByHash dbr (h key) = Some kr \<and> ak_rateLimit kr = 5 \<and> windowElapsed kr nowr \<and>
    ak_isActive kr \<and> \<not> expiredAt kr nowr \<and> \<not> orgMismatch kr orgr \<and>
    \<not> scopeMissing kr scr \<and> \<not> workflowDenied kr resr
    \<longrightarrow> validateApiKey h nowr dbr key scr resr orgr =
          (Valid (kr\<lparr>ak_rateLimitUsed := 0\<rparr>),
           updateById (ak_id kr)
             (\<lambda>r. r\<lparr>ak_rateLimitUsed := 0, ak_rateLimitReset := Some (nowr + 3600000)\<rparr>) dbr) \<and>
        findByHash (snd (validateApiKey h nowr dbr key scr resr orgr)) (h key) =
          Some (kr\<lparr>ak_rateLimitUsed := 0, ak_rateLimitReset := Some (nowr + 3600000)\<rparr>))"
proof (intro conjI impI)
  assume a: "distinct (map ak_id db) \<and> findByHash db (h key) = Some k \<and> ak_rateLimit k = 5 \<and>
    length calls = 5 \<and> usesInWindow h key cip calls db = Some db5 \<and>
    findByHash db5 (h key) = Some k5 \<and> \<not> windowElapsed k5 now6"
  then have ne: "calls \<noteq> []" by auto
  from a uses_invariant[of h key cip calls db db5 k] ne
  have k5: "ak_rateLimitUsed k5 = ak_rateLimitUsed k + 5" "ak_rateLimit k5 = 5" "ak_isActive k5"
    by auto
  then have lim: "ak_rateLimit k5 \<le> int (ak_rateLimitUsed k5)" by simp
  from a lim show "\<not> is_Valid (fst (validateApiKey h now6 db5 key sc6 res6 org6))"
    by (simp add: validate_at_limit_fails)
  assume "\<not> expiredAt k5 now6 \<and> \<not> orgMismatch k5 org6"
  with a lim k5(3)
  show "validateApiKey h now6 db5 key sc6 res6 org6 = (Invalid ''Rate limit exceeded'' True, db5)"
    by (simp add: validate_at_limit)
next
  assume b: "findByHash dbr (h key) = Some kr \<and> ak_rateLimit kr = 5 \<and> windowElapsed kr nowr \<and>
    ak_isActive kr \<and> \<not> expiredAt kr nowr \<and> \<not> orgMismatch kr orgr \<and>
    \<not> scopeMissing kr scr \<and> \<not> workflowDenied kr resr"
  then have "0 < ak_rateLimit kr" by simp
  with b have r:
    "validateApiKey h nowr dbr key scr resr orgr =
          (Valid (kr\<lparr>ak_rateLimitUsed := 0\<rparr>),
           updateById (ak_id kr)
             (\<lambda>r. r\<lparr>ak_rateLimitUsed := 0, ak_rateLimitReset := Some (nowr + 3600000)\<rparr>) dbr) \<and>
     findByHash (snd (validateApiKey h nowr dbr key scr resr orgr)) (h key) =
          Some (kr\<lparr>ak_rateLimitUsed := 0, ak_rateLimitReset := Some (nowr + 3600000)\<rparr>)"
    by (intro validate_after_reset) blast+
  from r show "validateApiKey h nowr dbr key scr resr orgr =
          (Valid (kr\<lparr>ak_rateLimitUsed := 0\<rparr>),
           updateById (ak_id kr)
             (\<lambda>r. r\<lparr>ak_rateLimitUsed := 0, ak_rateLimitReset := Some (nowr + 3600000)\<rparr>) dbr)"
    by (rule conjunct1)
  from r show "findByHash (snd (validateApiKey h nowr dbr key scr resr orgr)) (h key) =
          Some (kr\<lparr>ak_rateLimitUsed := 0, ak_rateLimitReset := Some (nowr + 3600000)\<rparr>)"
    by (rule conjunct2)
qed

theorem rate_limit_window_witness:
  "validateApiKey (\<lambda>k. k) 6 [usedKey] ''sk_live'' None None None =
     (Invalid ''Rate limit exceeded'' True, [usedKey]) \<and>
   validateApiKey (\<lambda>k. k) 3600002 [usedKey] ''sk_live'' None None None =
     (Valid (usedKey\<lparr>ak_rateLimitUsed := 0\<rparr>),
      [usedKey\<lparr>ak_rateLimitUsed := 0, ak_rateLimitReset := Some 7200002\<rparr>])"
proof -
  have 1: "distinct (map ak_id [freshKey]) \<and> findByHash [freshKey] ((\<lambda>k. k) ''sk_live'') = Some freshKey \<and>
    ak_rateLimit freshKey = 5 \<and> length fiveCalls = 5 \<and>
    usesInWindow (\<lambda>k. k) ''sk_live'' None fiveCalls [freshKey] = Some [usedKey] \<and>
    findByHash [usedKey] ((\<lambda>k. k) ''sk_live'') = Some usedKey \<and> \<not> windowElapsed usedKey 6"
    using five_uses
    by (simp add: fiveCalls_def freshKey_def usedKey_def findByHash_def windowElapsed_def)
  have 2: "\<not> expiredAt usedKey 6 \<and> \<not> orgMismatch usedKey None"
    by (simp add: freshKey_def usedKey_def expiredAt_def orgMismatch_def truthy_def)
  have 3: "findByHash [usedKey] ((\<lambda>k. k) ''sk_live'') = Some usedKey \<and> ak_rateLimit usedKey = 5 \<and>
    windowElapsed usedKey 3600002 \<and> ak_isActive usedKey \<and> \<not> expiredAt usedKey 3600002 \<and>
    \<not> orgMismatch usedKey None \<and> \<not> scopeMissing usedKey None \<and> \<not> workflowDenied usedKey None"
    by (simp add: freshKey_def usedKey_def validate_defs)
  from rate_limit_window [where h = "\<lambda>k. k" and key = "''sk_live''" and db = "[freshKey]"
         and k = freshKey and calls = fiveCalls and cip = None and ?db5.0 = "[usedKey]"
         and ?k5.0 = usedKey and ?now6.0 = 6 and ?sc6.0 = None and ?res6.0 = None
         and ?org6.0 = None and dbr = "[usedKey]" and kr = usedKey and nowr = 3600002
         and scr = None and resr = None and orgr = None] 1 2 3
  show ?thesis
    by (simp add: updateById_def usedKey_def freshKey_def)
qed


section \<open>The TAH middleware: classifier and key resolver\<close>

text \<open>
  Claim C4, as stated, fails for an audience that is a single string: the classifier
  looks for the configured audience only in an audience that is an array. With the
  audience \<open>kvr\<close> configured, a payload with another issuer and the scalar audience
  \<open>kvr\<close> satisfies the condition of the specification, and the classifier returns
  false.
\<close>

theorem classifier_scalar_audience_counterexample:
  "looksExternalSpec exampleConfig
     (Payload (Some ''https://other.example.com'') (AudString ''kvr'')) \<and>
   isTahToken exampleConfig
     (\<lambda>t. Decoded (Payload (Some ''https://other.example.com'') (AudString ''kvr'')))
     ''header.payload.signature'' = Inr False"
  by (simp add: isTahToken_def isTahTokenTry_def looksExternalSpec_def exampleConfig_def)

text \<open>
  Claim C4, amended. For every token string the classifier returns a boolean and never
  raises; the boolean is true if and only if the token decodes to a payload whose
  issuer claim equals the configured issuer or whose audience claim is a list that
  contains the configured audience. An audience that is a single string does not
  count, and a token whose decoding throws, returns \<open>null\<close> or yields a \<open>null\<close>
  payload gives false.
\<close>

theorem classifier_characterisation:
  "isTahToken cfg decode token =
     Inr (case decode token of
            Decoded (Payload iss aud) \<Rightarrow>
              iss = Some (tah_issuer cfg) \<or>
              (case aud of AudList xs \<Rightarrow> tah_audience cfg \<in> set xs | _ \<Rightarrow> False)
          | _ \<Rightarrow> False)"
  by (auto simp add: isTahToken_def isTahTokenTry_def
        split: sum.splits decodeResult.splits payloadJson.splits audClaim.splits)

text \<open>On payloads whose audience is absent or a list, the classifier computes what the
  specification asks.\<close>

lemma classifier_meets_spec_on_lists:
  assumes "decode token = Decoded (Payload iss aud)" and "\<And>a. aud \<noteq> AudString a"
  shows "isTahToken cfg decode token = Inr (looksExternalSpec cfg (Payload iss aud))"
  using assms
  by (auto simp add: isTahToken_def isTahTokenTry_def looksExternalSpec_def
        split: audClaim.splits)

subsection \<open>The key resolver\<close>

lemmas jwks_defs = getSigningKey_def fetchJwks_def jsonTruthy_def

text \<open>A body that is fetched is stored whatever it is, but a falsy one does not count
  as a cache: the next call fetches again, and the error of a failed fetch is
  raised.\<close>

lemma falsy_body_is_no_cache:
  assumes "\<not> truthy (tah_publicKey cfg)" and "\<not> jsonTruthy (jwksCache st0)"
    and "\<not> jsonTruthy body"
  shows "fetches (snd (getSigningKey cfg rsaToPem now network kid
            (snd (getSigningKey cfg rsaToPem t0 (Inr body) kid0 st0)))) = fetches st0 + 2"
    and "fst (getSigningKey cfg rsaToPem now (Inl err) kid
            (snd (getSigningKey cfg rsaToPem t0 (Inr body) kid0 st0))) = Inl err"
  using assms
  by (auto simp add: jwks_defs split: sum.splits jwksBody.splits)

text \<open>Once the cache holds a document it holds one for as long as the fetched bodies
  are documents.\<close>

lemma cache_stays_filled:
  "jsonTruthy (jwksCache st) \<Longrightarrow> (\<forall>body. network = Inr body \<longrightarrow> jsonTruthy body) \<Longrightarrow>
   jsonTruthy (jwksCache (snd (fetchJwks cfg now network st)))"
  by (auto simp add: fetchJwks_def split: sum.splits)

text \<open>
  Claim C5, as stated, fails when the body of a successful answer is falsy. With the
  time to live of 3600 seconds and an empty cache, the call at the instant 0 fetches the
  body \<open>null\<close> with success. The call one second later, within the time to live, fetches
  again, and when that fetch fails its error is raised, although a fetch has succeeded
  before.
\<close>

theorem jwks_falsy_body_counterexample:
  "getSigningKey exampleConfig noRsa 0 (Inr JsonNull) (Some ''kid-1'') initialJwksState =
     (Inl TypeError, \<lparr>jwksCache = JsonNull, jwksCacheExpiry = 3600000, fetches = 1\<rparr>) \<and>
   getSigningKey exampleConfig noRsa 1000 (Inr (JsonDocument exampleJwks)) (Some ''kid-1'')
     \<lparr>jwksCache = JsonNull, jwksCacheExpiry = 3600000, fetches = 1\<rparr> =
     (Inr (''-----BEGIN CERTIFICATE-----'' @ [CHR 0x0A] @ ''MIIB'' @ [CHR 0x0A] @
           ''-----END CERTIFICATE-----''),
      \<lparr>jwksCache = JsonDocument exampleJwks, jwksCacheExpiry = 3601000, fetches = 2\<rparr>) \<and>
   getSigningKey exampleConfig noRsa 1000 (Inl (Thrown ''offline'')) (Some ''kid-1'')
     \<lparr>jwksCache = JsonNull, jwksCacheExpiry = 3600000, fetches = 1\<rparr> =
     (Inl (Thrown ''offline''),
      \<lparr>jwksCache = JsonNull, jwksCacheExpiry = 3600000, fetches = 2\<rparr>)"
  by (simp add: jwks_defs exampleConfig_def exampleJwks_def initialJwksState_def truthy_def
        searchJwks_def jwkToPem_def)

text \<open>
  Claim C5, amended. For the resolver without a static key, the cache counts as
  populated when it holds a truthy document. (1) A call at the instant \<open>t0\<close> that finds
  the cache not populated or expired fetches; when the fetch succeeds with a document,
  the result is the search of that document, the document is stored, the expiry is
  \<open>t0\<close> plus the configured number of seconds, and one fetch is counted. (2) On a
  call within that time after such a call, and on any call before the expiry of a
  populated cache, the result is the search of the cached key set and the state is
  unchanged, its count of network fetches too, whatever the network would answer.
  (3) On a call where the cache is populated and expired and the fetch fails, the
  result is the search of the cached key set, the cache is kept and one fetch is
  counted; so whenever the fetch fails and the cache is populated, a matching key that
  converts is returned and the error of the fetch is not. (4) When the fetch fails
  and the cache is not populated, because nothing was fetched yet or because the last
  body fetched was falsy, the error of the fetch is the result. (5) A falsy body
  that is fetched with success is stored with the new expiry but leaves the cache not
  populated.
\<close>

theorem jwks_resolver_cache:
  assumes "\<not> truthy (tah_publicKey cfg)"
  shows "(\<not> (jsonTruthy (jwksCache st0) \<and> t0 < jwksCacheExpiry st0) \<longrightarrow>
            getSigningKey cfg rsaToPem t0 (Inr (JsonDocument doc)) kid0 st0 =
              (searchJwks rsaToPem doc kid0,
               st0\<lparr>jwksCache := JsonDocument doc,
                    jwksCacheExpiry := t0 + tah_jwksCacheTtl cfg * 1000,
                    fetches := fetches st0 + 1\<rparr>)) \<and>
         (\<not> (jsonTruthy (jwksCache st0) \<and> t0 < jwksCacheExpiry st0) \<and>
          now < t0 + tah_jwksCacheTtl cfg * 1000 \<longrightarrow>
            getSigningKey cfg rsaToPem now network kid
                (snd (getSigningKey cfg rsaToPem t0 (Inr (JsonDocument doc)) kid0 st0)) =
              (searchJwks rsaToPem doc kid,
               snd (getSigningKey cfg rsaToPem t0 (Inr (JsonDocument doc)) kid0 st0))) \<and>
         (jwksCache st = JsonDocument c \<and> now < jwksCacheExpiry st \<longrightarrow>
            getSigningKey cfg rsaToPem now network kid st = (searchJwks rsaToPem c kid, st)) \<and>
         (jwksCache st = JsonDocument c \<and> jwksCacheExpiry st \<le> now \<longrightarrow>
            getSigningKey cfg rsaToPem now (Inl err) kid st =
              (searchJwks rsaToPem c kid, st\<lparr>fetches := fetches st + 1\<rparr>)) \<and>
         (jwksCache st = JsonDocument c \<and> jwks_keys c = Some ks \<and>
          find (\<lambda>k. jwk_kid k = kid) ks = Some key \<and> jwkToPem rsaToPem key = Inr pem \<longrightarrow>
            fst (getSigningKey cfg rsaToPem now (Inl err) kid st) = Inr pem) \<and>
         (\<not> jsonTruthy (jwksCache st) \<longrightarrow>
            getSigningKey cfg rsaToPem now (Inl err) kid st =
              (Inl err, st\<lparr>fetches := fetches st + 1\<rparr>)) \<and>
         (\<not> (jsonTruthy (jwksCache st0) \<and> t0 < jwksCacheExpiry st0) \<and> \<not> jsonTruthy body \<longrightarrow>
            snd (getSigningKey cfg rsaToPem t0 (Inr body) kid0 st0) =
              st0\<lparr>jwksCache := body, jwksCacheExpiry := t0 + tah_jwksCacheTtl cfg * 1000,
                   fetches := fetches st0 + 1\<rparr> \<and>
            \<not> jsonTruthy (jwksCache (snd (getSigningKey cfg rsaToPem t0 (Inr body) kid0 st0))))"
proof -
  have 1: "\<not> (jsonTruthy (jwksCache st0) \<and> t0 < jwksCacheExpiry st0) \<Longrightarrow>
      getSigningKey cfg rsaToPem t0 (Inr (JsonDocument doc)) kid0 st0 =
        (searchJwks rsaToPem doc kid0,
         st0\<lparr>jwksCache := JsonDocument doc,
              jwksCacheExpiry := t0 + tah_jwksCacheTtl cfg * 1000,
              fetches := fetches st0 + 1\<rparr>)"
    using assms by (auto simp add: getSigningKey_def fetchJwks_def)
  have 3: "\<And>st c. jwksCache st = JsonDocument c \<Longrightarrow> now < jwksCacheExpiry st \<Longrightarrow>
      getSigningKey cfg rsaToPem now network kid st = (searchJwks rsaToPem c kid, st)"
    using assms by (simp add: jwks_defs)
  have 2: "\<not> (jsonTruthy (jwksCache st0) \<and> t0 < jwksCacheExpiry st0) \<Longrightarrow>
      now < t0 + tah_jwksCacheTtl cfg * 1000 \<Longrightarrow>
      getSigningKey cfg rsaToPem now network kid
          (snd (getSigningKey cfg rsaToPem t0 (Inr (JsonDocument doc)) kid0 st0)) =
        (searchJwks rsaToPem doc kid,
         snd (getSigningKey cfg rsaToPem t0 (Inr (JsonDocument doc)) kid0 st0))"
    by (simp add: 1 3)
  have 4: "jwksCache st = JsonDocument c \<Longrightarrow> jwksCacheExpiry st \<le> now \<Longrightarrow>
      getSigningKey cfg rsaToPem now (Inl err) kid st =
        (searchJwks rsaToPem c kid, st\<lparr>fetches := fetches st + 1\<rparr>)"
    using assms by (simp add: jwks_defs)
  have 5: "jwksCache st = JsonDocument c \<Longrightarrow> jwks_keys c = Some ks \<Longrightarrow>
      find (\<lambda>k. jwk_kid k = kid) ks = Some key \<Longrightarrow> jwkToPem rsaToPem key = Inr pem \<Longrightarrow>
      fst (getSigningKey cfg rsaToPem now (Inl err) kid st) = Inr pem"
    using assms by (simp add: jwks_defs searchJwks_def)
  have 6: "\<not> jsonTruthy (jwksCache st) \<Longrightarrow>
      getSigningKey cfg rsaToPem now (Inl err) kid st =
        (Inl err, st\<lparr>fetches := fetches st + 1\<rparr>)"
    using assms by (simp add: getSigningKey_def fetchJwks_def)
  have 7: "\<not> (jsonTruthy (jwksCache st0) \<and> t0 < jwksCacheExpiry st0) \<Longrightarrow> \<not> jsonTruthy body \<Longrightarrow>
      snd (getSigningKey cfg rsaToPem t0 (Inr body) kid0 st0) =
        st0\<lparr>jwksCache := body, jwksCacheExpiry := t0 + tah_jwksCacheTtl cfg * 1000,
             fetches := fetches st0 + 1\<rparr>"
    using assms by (cases body) (auto simp add: getSigningKey_def fetchJwks_def)
  from 1 2 3 4 5 6 7 show ?thesis by simp
qed

theorem jwks_resolver_cache_witness:
  "getSigningKey exampleConfig noRsa 0 (Inr (JsonDocument exampleJwks)) (Some ''kid-1'')
     initialJwksState =
     (Inr (''-----BEGIN CERTIFICATE-----'' @ [CHR 0x0A] @ ''MIIB'' @ [CHR 0x0A] @
           ''-----END CERTIFICATE-----''),
      \<lparr>jwksCache = JsonDocument exampleJwks, jwksCacheExpiry = 3600000, fetches = 1\<rparr>) \<and>
   getSigningKey exampleConfig noRsa 3599999 (Inl (Thrown ''offline'')) (Some ''kid-1'')
     (snd (getSigningKey exampleConfig noRsa 0 (Inr (JsonDocument exampleJwks))
             (Some ''kid-1'') initialJwksState)) =
     (Inr (''-----BEGIN CERTIFICATE-----'' @ [CHR 0x0A] @ ''MIIB'' @ [CHR 0x0A] @
           ''-----END CERTIFICATE-----''),
      \<lparr>jwksCache = JsonDocument exampleJwks, jwksCacheExpiry = 3600000, fetches = 1\<rparr>) \<and>
   getSigningKey exampleConfig noRsa 9000000 (Inl (Thrown ''offline'')) (Some ''kid-1'')
     \<lparr>jwksCache = JsonDocument exampleJwks, jwksCacheExpiry = 3600000, fetches = 1\<rparr> =
     (Inr (''-----BEGIN CERTIFICATE-----'' @ [CHR 0x0A] @ ''MIIB'' @ [CHR 0x0A] @
           ''-----END CERTIFICATE-----''),
      \<lparr>jwksCache = JsonDocument exampleJwks, jwksCacheExpiry = 3600000, fetches = 2\<rparr>) \<and>
   getSigningKey exampleConfig noRsa 0 (Inl (Thrown ''offline'')) (Some ''kid-1'')
     initialJwksState =
     (Inl (Thrown ''offline''), \<lparr>jwksCache = JsonNull, jwksCacheExpiry = 0, fetches = 1\<rparr>)"
proof -
  have n: "\<not> truthy (tah_publicKey exampleConfig)"
    by (simp add: exampleConfig_def truthy_def)
  let ?filled = "\<lparr>jwksCache = JsonDocument exampleJwks, jwksCacheExpiry = 3600000,
                   fetches = 1\<rparr>"
  have s: "searchJwks noRsa exampleJwks (Some ''kid-1'') =
      Inr (''-----BEGIN CERTIFICATE-----'' @ [CHR 0x0A] @ ''MIIB'' @ [CHR 0x0A] @
           ''-----END CERTIFICATE-----'')"
    by (simp add: searchJwks_def exampleJwks_def jwkToPem_def)
  have a: "getSigningKey exampleConfig noRsa 0 (Inr (JsonDocument exampleJwks))
             (Some ''kid-1'') initialJwksState = (searchJwks noRsa exampleJwks (Some ''kid-1''), ?filled)"
    using jwks_resolver_cache [OF n, where ?t0.0 = 0 and doc = exampleJwks
            and ?st0.0 = initialJwksState and rsaToPem = noRsa and ?kid0.0 = "Some ''kid-1''"]
    by (simp add: initialJwksState_def jsonTruthy_def exampleConfig_def)
  have b: "getSigningKey exampleConfig noRsa 3599999 (Inl (Thrown ''offline'')) (Some ''kid-1'')
             (snd (getSigningKey exampleConfig noRsa 0 (Inr (JsonDocument exampleJwks))
                     (Some ''kid-1'') initialJwksState)) =
           (searchJwks noRsa exampleJwks (Some ''kid-1''),
            snd (getSigningKey exampleConfig noRsa 0 (Inr (JsonDocument exampleJwks))
                     (Some ''kid-1'') initialJwksState))"
    using jwks_resolver_cache [OF n, where now = 3599999 and ?t0.0 = 0 and doc = exampleJwks
            and ?st0.0 = initialJwksState and rsaToPem = noRsa
            and network = "Inl (Thrown ''offline'')" and kid = "Some ''kid-1''"
            and ?kid0.0 = "Some ''kid-1''"]
    by (simp add: initialJwksState_def jsonTruthy_def exampleConfig_def)
  have c: "getSigningKey exampleConfig noRsa 9000000 (Inl (Thrown ''offline'')) (Some ''kid-1'')
             ?filled = (searchJwks noRsa exampleJwks (Some ''kid-1''), ?filled\<lparr>fetches := 2\<rparr>)"
    using jwks_resolver_cache [OF n, where now = 9000000 and rsaToPem = noRsa
            and st = ?filled and c = exampleJwks and err = "Thrown ''offline''"
            and kid = "Some ''kid-1''"]
    by simp
  have d: "getSigningKey exampleConfig noRsa 0 (Inl (Thrown ''offline'')) (Some ''kid-1'')
             initialJwksState = (Inl (Thrown ''offline''), initialJwksState\<lparr>fetches := 1\<rparr>)"
    using jwks_resolver_cache [OF n, where now = 0 and rsaToPem = noRsa
            and st = initialJwksState and err = "Thrown ''offline''" and kid = "Some ''kid-1''"]
    by (simp add: initialJwksState_def jsonTruthy_def)
  from a b c d s show ?thesis by (simp add: initialJwksState_def)
qed


section \<open>The role mapping\<close>

lemmas case_defs = toLowerCase_def toUpperCase_def lowerUnits_def upperUnits_def
  lowerUnit_def upperUnit_def tabulated_def

lemmas role_defs = mapTahRole_def mapTahRoleTwice_def roleTableGet_def TAH_ROLE_MAPPING_def
  objectPrototypeNames_def units_def case_defs trim_def isWhiteSpace_def

text \<open>The case conversions of a Latin-1 string are the tabulated ones, whatever the
  library.\<close>

lemma latin1_tabulated: "latin1 r \<Longrightarrow> list_all tabulated r"
  by (induction r) (simp_all add: latin1_def tabulated_def)

lemma lowerUnits_Cons: "lowerUnits (c # r) = lowerUnit c @ lowerUnits r"
  by (simp add: lowerUnits_def)

lemma upperUnits_Cons: "upperUnits (c # r) = upperUnit c @ upperUnits r"
  by (simp add: upperUnits_def)

lemma lowerUnits_append: "lowerUnits (r @ s) = lowerUnits r @ lowerUnits s"
  by (simp add: lowerUnits_def)

lemma upperUnits_append: "upperUnits (r @ s) = upperUnits r @ upperUnits s"
  by (simp add: upperUnits_def)

lemma lowerUnits_Nil_iff: "(lowerUnits r = []) = (r = [])"
  by (cases r) (simp_all add: lowerUnits_def lowerUnit_def)

lemma upperUnits_Nil_iff: "(upperUnits r = []) = (r = [])"
  by (cases r) (simp_all add: upperUnits_def upperUnit_def)

text \<open>The code units of Latin-1, by their case: the small letters are the capital
  letters plus 32.\<close>

lemma latin1_unit_ranges:
  fixes c :: nat
  assumes "c < 256"
  shows "(0x61 \<le> c \<and> c \<le> 0x7A) \<or> (0xE0 \<le> c \<and> c \<le> 0xF6) \<or> (0xF8 \<le> c \<and> c \<le> 0xFE) \<or>
         (0x41 \<le> c \<and> c \<le> 0x5A) \<or> (0xC0 \<le> c \<and> c \<le> 0xD6) \<or> (0xD8 \<le> c \<and> c \<le> 0xDE) \<or>
         c = 0xB5 \<or> c = 0xDF \<or> c = 0xFF \<or> c = 0xD7 \<or> c = 0xF7 \<or>
         c < 0x41 \<or> (0x5A < c \<and> c < 0x61) \<or> (0x7A < c \<and> c < 0xB5) \<or> (0xB5 < c \<and> c < 0xC0)"
proof -
  have b1: "c < 0x41 \<or> 0x41 \<le> c" by linarith
  have b2: "c \<le> 0x5A \<or> 0x5A < c" by linarith
  have b3: "c < 0x61 \<or> 0x61 \<le> c" by linarith
  have b4: "c \<le> 0x7A \<or> 0x7A < c" by linarith
  have b5: "c < 0xB5 \<or> c = 0xB5 \<or> 0xB5 < c" by linarith
  have b6: "c < 0xC0 \<or> 0xC0 \<le> c" by linarith
  have b7: "c \<le> 0xD6 \<or> c = 0xD7 \<or> 0xD8 \<le> c" by linarith
  have b8: "c \<le> 0xDE \<or> c = 0xDF \<or> 0xE0 \<le> c" by linarith
  have b9: "c \<le> 0xF6 \<or> c = 0xF7 \<or> 0xF8 \<le> c" by linarith
  have b10: "c \<le> 0xFE \<or> c = 0xFF" using assms by linarith
  from b1 b2 b3 b4 b5 b6 b7 b8 b9 b10 show ?thesis by blast
qed

lemma latin1_unit_cases:
  fixes c :: nat
  assumes "c < 256"
  obtains (smallAZ) d where "c = d + 32" "0x41 \<le> d" "d \<le> 0x5A"
    | (smallLatin) d where "c = d + 32" "0xC0 \<le> d" "d \<le> 0xD6"
    | (smallLatin2) d where "c = d + 32" "0xD8 \<le> d" "d \<le> 0xDE"
    | (capitalAZ) "0x41 \<le> c" "c \<le> 0x5A"
    | (capitalLatin) "0xC0 \<le> c" "c \<le> 0xD6"
    | (capitalLatin2) "0xD8 \<le> c" "c \<le> 0xDE"
    | (micro) "c = 0xB5" | (sharp) "c = 0xDF" | (ydiaeresis) "c = 0xFF"
    | (times) "c = 0xD7" | (divide) "c = 0xF7"
    | (low) "c < 0x41" | (mid) "0x5A < c" "c < 0x61"
    | (high) "0x7A < c" "c < 0xB5" | (high2) "0xB5 < c" "c < 0xC0"
proof -
  from latin1_unit_ranges[OF assms] show ?thesis
  proof (elim disjE conjE)
    assume "0x61 \<le> c" "c \<le> 0x7A"
    then show ?thesis using smallAZ[of "c - 32"] by simp
  next
    assume "0xE0 \<le> c" "c \<le> 0xF6"
    then show ?thesis using smallLatin[of "c - 32"] by simp
  next
    assume "0xF8 \<le> c" "c \<le> 0xFE"
    then show ?thesis using smallLatin2[of "c - 32"] by simp
  qed (use that in blast)+
qed

lemma tabulated_upperUnit: "c < 256 \<Longrightarrow> list_all tabulated (upperUnit c)"
  by (cases c rule: latin1_unit_cases) (simp_all add: upperUnit_def tabulated_def)

lemma upperUnit_upperUnit: "c < 256 \<Longrightarrow> upperUnits (upperUnit c) = upperUnit c"
  by (cases c rule: latin1_unit_cases) (simp_all add: upperUnits_def upperUnit_def)

lemma upperUnit_lowerUnit: "c < 256 \<Longrightarrow> upperUnits (lowerUnit c) = upperUnit c"
  by (cases c rule: latin1_unit_cases) (simp_all add: upperUnits_def upperUnit_def lowerUnit_def)

lemma lowerUnit_upperUnit:
  "c < 256 \<Longrightarrow> c \<noteq> 0xB5 \<Longrightarrow> c \<noteq> 0xDF \<Longrightarrow> lowerUnits (upperUnit c) = lowerUnit c"
  by (cases c rule: latin1_unit_cases) (simp_all add: lowerUnits_def upperUnit_def lowerUnit_def)

lemma latin1_lowerUnits: "latin1 r \<Longrightarrow> latin1 (lowerUnits r)"
  by (induction r) (simp_all add: latin1_def lowerUnits_def lowerUnit_def)

lemma tabulated_upperUnits: "latin1 r \<Longrightarrow> list_all tabulated (upperUnits r)"
  by (induction r) (simp_all add: latin1_def upperUnits_Cons tabulated_upperUnit, simp add: upperUnits_def)

text \<open>On Latin-1, upper-casing twice is upper-casing once, and the upper-case form
  depends on the lower-case form only.\<close>

lemma upperUnits_upperUnits: "latin1 r \<Longrightarrow> upperUnits (upperUnits r) = upperUnits r"
  by (induction r)
     (simp_all add: latin1_def upperUnits_Cons upperUnits_append upperUnit_upperUnit,
      simp add: upperUnits_def)

lemma upperUnits_lowerUnits: "latin1 r \<Longrightarrow> upperUnits (lowerUnits r) = upperUnits r"
  by (induction r)
     (simp_all add: latin1_def upperUnits_Cons lowerUnits_Cons upperUnits_append
        upperUnit_lowerUnit,
      simp add: upperUnits_def lowerUnits_def)

text \<open>Lower-casing the upper-case form of a Latin-1 string gives its lower-case form,
  except at the micro sign, which comes back as the Greek small mu, and at sharp s,
  which comes back as \<open>ss\<close>.\<close>

lemma lowerUnits_upperUnits:
  "latin1 r \<Longrightarrow> 0xB5 \<notin> set r \<Longrightarrow> 0xDF \<notin> set r \<Longrightarrow> lowerUnits (upperUnits r) = lowerUnits r"
  by (induction r)
     (simp_all add: latin1_def upperUnits_Cons lowerUnits_Cons lowerUnits_append
        lowerUnit_upperUnit,
      simp add: upperUnits_def lowerUnits_def)

lemma micro_sign_gives_mu: "0xB5 \<in> set r \<Longrightarrow> 0x3BC \<in> set (lowerUnits (upperUnits r))"
proof -
  assume "0xB5 \<in> set r"
  then obtain a b where r: "r = a @ 0xB5 # b" by (auto simp add: in_set_conv_decomp)
  have "lowerUnits (upperUnit 0xB5) = [0x3BC]"
    by (simp add: lowerUnits_def upperUnit_def lowerUnit_def)
  then show ?thesis
    unfolding r by (simp add: upperUnits_append upperUnits_Cons lowerUnits_append)
qed

lemma sharp_s_gives_ss:
  "0xDF \<in> set r \<Longrightarrow> \<exists>xs ys. lowerUnits (upperUnits r) = xs @ [0x73, 0x73] @ ys"
proof -
  assume "0xDF \<in> set r"
  then obtain a b where r: "r = a @ 0xDF # b" by (auto simp add: in_set_conv_decomp)
  have "lowerUnits (upperUnit 0xDF) = [0x73, 0x73]"
    by (simp add: lowerUnits_def upperUnit_def lowerUnit_def)
  then have "lowerUnits (upperUnits r) =
      lowerUnits (upperUnits a) @ [0x73, 0x73] @ lowerUnits (upperUnits b)"
    unfolding r by (simp add: upperUnits_append upperUnits_Cons lowerUnits_append)
  then show ?thesis by blast
qed

text \<open>\<open>trim\<close> keeps every code unit that is no white space, and a pair of adjacent
  letters \<open>s\<close>.\<close>

lemma dropWhile_keeps: "x \<in> set s \<Longrightarrow> \<not> P x \<Longrightarrow> x \<in> set (dropWhile P s)"
  by (induction s) auto

lemma trim_keeps: "x \<in> set s \<Longrightarrow> \<not> isWhiteSpace x \<Longrightarrow> x \<in> set (trim s)"
  by (simp add: trim_def dropWhile_keeps)

lemma dropWhile_keeps_pair:
  assumes "s = xs @ [a, b] @ ys" and "\<not> P a"
  shows "\<exists>xs' ys'. dropWhile P s = xs' @ [a, b] @ ys'"
proof (cases "\<forall>x\<in>set xs. P x")
  case True
  then have "dropWhile P s = [] @ [a, b] @ ys"
    using assms by (simp add: dropWhile_append)
  then show ?thesis by blast
next
  case False
  then have "dropWhile P s = dropWhile P xs @ [a, b] @ ys"
    using assms by (auto simp add: dropWhile_append)
  then show ?thesis by blast
qed

lemma trim_keeps_ss:
  assumes "s = xs @ [0x73, 0x73] @ ys"
  shows "\<exists>xs' ys'. trim s = xs' @ [0x73, 0x73] @ ys'"
proof -
  have w: "\<not> isWhiteSpace 0x73" by (simp add: isWhiteSpace_def)
  from dropWhile_keeps_pair[of s xs "0x73" "0x73" ys isWhiteSpace, OF assms w]
  obtain x1 y1 where 1: "dropWhile isWhiteSpace s = x1 @ [0x73, 0x73] @ y1" by blast
  then have "rev (dropWhile isWhiteSpace s) = rev y1 @ [0x73, 0x73] @ rev x1" by simp
  from dropWhile_keeps_pair[of "rev (dropWhile isWhiteSpace s)" "rev y1" "0x73" "0x73" "rev x1"
         isWhiteSpace, OF this w]
  obtain x2 y2 where "dropWhile isWhiteSpace (rev (dropWhile isWhiteSpace s)) =
      x2 @ [0x73, 0x73] @ y2" by blast
  then have "trim s = rev y2 @ [0x73, 0x73] @ rev x2" by (simp add: trim_def)
  then show ?thesis by blast
qed

lemma pair_in_zip: "s = xs @ [a, b] @ ys \<Longrightarrow> (a, b) \<in> set (zip s (tl s))"
proof (induction xs arbitrary: s)
  case Nil
  then show ?case by simp
next
  case (Cons x xs)
  then have "(a, b) \<in> set (zip (xs @ [a, b] @ ys) (tl (xs @ [a, b] @ ys)))" by simp
  moreover have "tl (xs @ [a, b] @ ys) \<noteq> []" by (cases xs) simp_all
  ultimately show ?case using Cons.prems
    by (cases "xs @ [a, b] @ ys") (auto simp add: zip_Cons1 split: list.splits)
qed

text \<open>No key of the table and no inherited name holds the Greek small mu or two
  adjacent letters \<open>s\<close>.\<close>

lemma names_without_mu_and_ss:
  assumes "n \<in> fst ` set TAH_ROLE_MAPPING \<or> n \<in> set objectPrototypeNames"
  shows "0x3BC \<notin> set n \<and> (0x73, 0x73) \<notin> set (zip n (tl n))"
  using assms
  by (auto simp add: TAH_ROLE_MAPPING_def objectPrototypeNames_def units_def)

lemma roleTableGet_Undefined_iff:
  "(roleTableGet n = Undefined) =
     (n \<notin> fst ` set TAH_ROLE_MAPPING \<and> n \<notin> set objectPrototypeNames)"
proof (cases "map_of TAH_ROLE_MAPPING n")
  case None
  then have "n \<notin> fst ` set TAH_ROLE_MAPPING" by (simp add: map_of_eq_None_iff)
  with None show ?thesis by (simp add: roleTableGet_def)
next
  case (Some v)
  then have "n \<in> fst ` set TAH_ROLE_MAPPING" by (metis map_of_eq_None_iff option.distinct(1))
  with Some show ?thesis by (simp add: roleTableGet_def)
qed

text \<open>A Latin-1 role that is neither mapped nor an inherited name has an upper-case
  form that is neither.\<close>

lemma upper_form_unmapped:
  assumes l: "latin1 r" and u: "roleTableGet (trim (lowerUnits r)) = Undefined"
  shows "roleTableGet (trim (lowerUnits (upperUnits r))) = Undefined"
proof (cases "0xB5 \<in> set r")
  case True
  have "\<not> isWhiteSpace 0x3BC" by (simp add: isWhiteSpace_def)
  with micro_sign_gives_mu[OF True]
  have "0x3BC \<in> set (trim (lowerUnits (upperUnits r)))" by (rule trim_keeps)
  with names_without_mu_and_ss show ?thesis
    unfolding roleTableGet_Undefined_iff by blast
next
  case False
  show ?thesis
  proof (cases "0xDF \<in> set r")
    case True
    from sharp_s_gives_ss[OF True] trim_keeps_ss
    obtain xs ys where "trim (lowerUnits (upperUnits r)) = xs @ [0x73, 0x73] @ ys" by blast
    then have "(0x73, 0x73) \<in> set (zip (trim (lowerUnits (upperUnits r)))
        (tl (trim (lowerUnits (upperUnits r)))))" by (rule pair_in_zip)
    with names_without_mu_and_ss show ?thesis
      unfolding roleTableGet_Undefined_iff by blast
  next
    case nss: False
    from lowerUnits_upperUnits[OF l False nss] u show ?thesis by simp
  qed
qed

text \<open>The values of the table are the five local roles, and each of them is mapped to
  itself.\<close>

lemma table_values:
  "map_of TAH_ROLE_MAPPING k = Some v \<Longrightarrow>
   v = units ''ADMIN'' \<or> v = units ''OWNER'' \<or> v = units ''DEVELOPER'' \<or>
   v = units ''USER'' \<or> v = units ''VIEWER''"
  by (simp add: TAH_ROLE_MAPPING_def split: if_splits)

lemma local_roles_fixed:
  "v = units ''ADMIN'' \<or> v = units ''OWNER'' \<or> v = units ''DEVELOPER'' \<or>
   v = units ''USER'' \<or> v = units ''VIEWER'' \<Longrightarrow>
   mapTahRole lib (Str v) = Inr (Str v)"
  by (elim disjE) (simp_all add: role_defs)

lemma mapped_role:
  assumes "r \<noteq> []" and "map_of TAH_ROLE_MAPPING (trim (toLowerCase lib r)) = Some v"
  shows "mapTahRole lib (Str r) = Inr (Str v) \<and> mapTahRoleTwice lib (Str r) = Inr (Str v)"
proof -
  from assms have 1: "mapTahRole lib (Str r) = Inr (Str v)"
    by (simp add: mapTahRole_def roleTableGet_def)
  with local_roles_fixed[OF table_values[OF assms(2)], of lib] show ?thesis
    by (simp add: mapTahRoleTwice_def)
qed

lemma unmapped_role:
  assumes "r \<noteq> []" and "map_of TAH_ROLE_MAPPING (trim (toLowerCase lib r)) = None"
    and "trim (toLowerCase lib r) \<notin> set objectPrototypeNames"
  shows "mapTahRole lib (Str r) = Inr (Str (toUpperCase lib r))"
  using assms by (simp add: mapTahRole_def roleTableGet_def)

text \<open>On Latin-1, away from the inherited names, the result is a string that is mapped
  to itself.\<close>

lemma mapTahRole_idempotent:
  assumes l: "latin1 r" and "trim (toLowerCase lib r) \<notin> set objectPrototypeNames"
  shows "\<exists>s. mapTahRole lib (Str r) = Inr (Str s) \<and> mapTahRole lib (Str s) = Inr (Str s)"
proof (cases "r = []")
  case True
  then show ?thesis using local_roles_fixed[of "units ''USER''" lib]
    by (simp add: mapTahRole_def)
next
  case False
  have lo: "toLowerCase lib r = lowerUnits r" and up: "toUpperCase lib r = upperUnits r"
    using latin1_tabulated[OF l] by (simp_all add: toLowerCase_def toUpperCase_def)
  have lo2: "toLowerCase lib (upperUnits r) = lowerUnits (upperUnits r)"
    and up2: "toUpperCase lib (upperUnits r) = upperUnits (upperUnits r)"
    using tabulated_upperUnits[OF l] by (simp_all add: toLowerCase_def toUpperCase_def)
  show ?thesis
  proof (cases "map_of TAH_ROLE_MAPPING (trim (toLowerCase lib r))")
    case (Some v)
    with False have "mapTahRole lib (Str r) = Inr (Str v)"
      by (simp add: mapTahRole_def roleTableGet_def)
    with local_roles_fixed[OF table_values[OF Some], of lib] show ?thesis by simp
  next
    case None
    with False assms(2) have 1: "mapTahRole lib (Str r) = Inr (Str (upperUnits r))"
      by (simp add: mapTahRole_def roleTableGet_def up)
    from None assms(2) have "roleTableGet (trim (lowerUnits r)) = Undefined"
      by (simp add: roleTableGet_def lo)
    from upper_form_unmapped[OF l this] False
    have "mapTahRole lib (Str (upperUnits r)) = Inr (Str (upperUnits r))"
      by (simp add: mapTahRole_def lo2 up2 upperUnits_upperUnits[OF l] upperUnits_Nil_iff)
    with 1 show ?thesis by simp
  qed
qed

text \<open>Latin-1 strings with the same lower-case form are mapped alike.\<close>

lemma mapTahRole_case_insensitive:
  assumes l1: "latin1 r1" and l2: "latin1 r2"
    and e: "toLowerCase lib r1 = toLowerCase lib r2"
  shows "mapTahRole lib (Str r1) = mapTahRole lib (Str r2)"
proof -
  have lo: "toLowerCase lib r1 = lowerUnits r1" "toLowerCase lib r2 = lowerUnits r2"
    and up: "toUpperCase lib r1 = upperUnits r1" "toUpperCase lib r2 = upperUnits r2"
    using latin1_tabulated[OF l1] latin1_tabulated[OF l2]
    by (simp_all add: toLowerCase_def toUpperCase_def)
  from e lo have le: "lowerUnits r1 = lowerUnits r2" by simp
  then have "upperUnits (lowerUnits r1) = upperUnits (lowerUnits r2)" by simp
  then have u: "toUpperCase lib r1 = toUpperCase lib r2"
    by (simp add: up upperUnits_lowerUnits[OF l1] upperUnits_lowerUnits[OF l2])
  from le have n: "(r1 = []) = (r2 = [])"
    by (metis lowerUnits_Nil_iff)
  show ?thesis unfolding mapTahRole_def js_value.case e u n ..
qed

text \<open>The result for a string of tabulated code units does not depend on the
  library.\<close>

lemma tabulated_role_without_library:
  "list_all tabulated r \<Longrightarrow> mapTahRole lib (Str r) = mapTahRole lib' (Str r)"
  unfolding mapTahRole_def toLowerCase_def toUpperCase_def by simp

text \<open>The inherited names in lower case, which a normalized role can be equal to, are
  \<open>constructor\<close> and \<open>__proto__\<close>; for both the result is not a string, and mapping it
  again is a TypeError.\<close>

lemma inherited_names_break_mapping:
  "mapTahRole lib (Str (units ''constructor'')) = Inr (ObjectMember (units ''constructor'')) \<and>
   mapTahRoleTwice lib (Str (units ''constructor'')) = Inl TypeError \<and>
   mapTahRole lib (Str (units '' __PROTO__ '')) = Inr (ObjectMember (units ''__proto__'')) \<and>
   mapTahRoleTwice lib (Str (units '' __PROTO__ '')) = Inl TypeError"
  by (simp add: role_defs)

text \<open>
  Claim C6, as stated, fails at four strings. The empty string is not returned
  upper-cased but replaced by \<open>USER\<close>, although it is no key of the table. For the
  string \<open>constructor\<close> the lookup in the table object finds the inherited member:
  the result is no string, and mapping it again raises a TypeError instead of giving
  the same result. The string \<open>editor\<close> written with a dotless i (code unit 131
  hexadecimal) is no key of the table and is returned upper-cased, which is \<open>EDITOR\<close>;
  mapping that again gives \<open>DEVELOPER\<close>, so mapping twice is not mapping once. And
  the Kelvin sign (code unit 212A) has the lower-case form \<open>k\<close> and is its own
  upper-case form, so it differs from \<open>k\<close> only in case, yet the two are mapped to
  different strings.
\<close>

theorem role_mapping_counterexample:
  "map_of TAH_ROLE_MAPPING [] = None \<and> toUpperCase unusedLibrary [] = [] \<and>
   mapTahRole unusedLibrary (Str []) = Inr (Str (units ''USER'')) \<and>
   mapTahRole unusedLibrary (Str (units ''constructor'')) =
     Inr (ObjectMember (units ''constructor'')) \<and>
   mapTahRoleTwice unusedLibrary (Str (units ''constructor'')) = Inl TypeError \<and>
   mapTahRole unusedLibrary (Str (units ''ed'' @ [0x131] @ units ''tor'')) =
     Inr (Str (units ''EDITOR'')) \<and>
   mapTahRoleTwice unusedLibrary (Str (units ''ed'' @ [0x131] @ units ''tor'')) =
     Inr (Str (units ''DEVELOPER'')) \<and>
   toLowerCase unusedLibrary [0x212A] = toLowerCase unusedLibrary (units ''k'') \<and>
   mapTahRole unusedLibrary (Str [0x212A]) = Inr (Str [0x212A]) \<and>
   mapTahRole unusedLibrary (Str (units ''k'')) = Inr (Str (units ''K''))"
  by (simp add: role_defs)

text \<open>
  Claim C6, amended. The role mapping returns \<open>USER\<close> for the empty string. For every
  string whose trimmed lower-case form is not the name of a member that objects
  inherit (\<open>constructor\<close>, \<open>__proto__\<close>) it returns a string. A string that is not
  empty and whose trimmed lower-case form is a key of the table is mapped to the value
  of that key, and mapping that value again returns it; so \<open>administrador\<close>,
  \<open>Administrador\<close> and \<open>ADMINISTRADOR\<close> all map to \<open>ADMIN\<close>, \<open>ADMIN\<close> maps to
  itself, and the accented keys are found from any case: the upper-case form of
  the accented key for the owner, with the capital A with acute accent (code unit C1),
  maps to \<open>OWNER\<close>. A string that is not empty and whose trimmed lower-case form is
  neither a key of the table nor an inherited name is returned upper-cased, untrimmed,
  and mapping it twice is mapping its upper-case form. For every Latin-1 string whose
  trimmed lower-case form is not an inherited name, mapping twice equals mapping once;
  and Latin-1 strings with the same lower-case form are mapped alike.
\<close>

theorem role_mapping:
  "mapTahRole lib (Str []) = Inr (Str (units ''USER'')) \<and>
   (trim (toLowerCase lib r0) \<notin> set objectPrototypeNames \<longrightarrow>
      (\<exists>s. mapTahRole lib (Str r0) = Inr (Str s))) \<and>
   (latin1 r \<and> trim (toLowerCase lib r) \<notin> set objectPrototypeNames \<longrightarrow>
      (\<exists>s. mapTahRole lib (Str r) = Inr (Str s) \<and> mapTahRoleTwice lib (Str r) = Inr (Str s))) \<and>
   (latin1 r1 \<and> latin1 r2 \<and> toLowerCase lib r1 = toLowerCase lib r2 \<longrightarrow>
      mapTahRole lib (Str r1) = mapTahRole lib (Str r2)) \<and>
   mapTahRole lib (Str (units ''administrador'')) = Inr (Str (units ''ADMIN'')) \<and>
   mapTahRole lib (Str (units ''Administrador'')) = Inr (Str (units ''ADMIN'')) \<and>
   mapTahRole lib (Str (units ''ADMINISTRADOR'')) = Inr (Str (units ''ADMIN'')) \<and>
   mapTahRole lib (Str (units ''ADMIN'')) = Inr (Str (units ''ADMIN'')) \<and>
   mapTahRole lib (Str (units ''PROPRIET'' @ [0xC1] @ units ''RIO'')) =
     Inr (Str (units ''OWNER'')) \<and>
   (r3 \<noteq> [] \<and> map_of TAH_ROLE_MAPPING (trim (toLowerCase lib r3)) = None \<and>
    trim (toLowerCase lib r3) \<notin> set objectPrototypeNames \<longrightarrow>
      mapTahRole lib (Str r3) = Inr (Str (toUpperCase lib r3)) \<and>
      mapTahRoleTwice lib (Str r3) = mapTahRole lib (Str (toUpperCase lib r3))) \<and>
   (r4 \<noteq> [] \<and> map_of TAH_ROLE_MAPPING (trim (toLowerCase lib r4)) = Some v \<longrightarrow>
      mapTahRole lib (Str r4) = Inr (Str v) \<and> mapTahRoleTwice lib (Str r4) = Inr (Str v))"
proof (intro conjI impI)
  show "mapTahRole lib (Str []) = Inr (Str (units ''USER''))" by (simp add: mapTahRole_def)
  show "mapTahRole lib (Str (units ''administrador'')) = Inr (Str (units ''ADMIN''))"
    by (simp add: role_defs)
  show "mapTahRole lib (Str (units ''Administrador'')) = Inr (Str (units ''ADMIN''))"
    by (simp add: role_defs)
  show "mapTahRole lib (Str (units ''ADMINISTRADOR'')) = Inr (Str (units ''ADMIN''))"
    by (simp add: role_defs)
  show "mapTahRole lib (Str (units ''ADMIN'')) = Inr (Str (units ''ADMIN''))"
    by (simp add: role_defs)
  show "mapTahRole lib (Str (units ''PROPRIET'' @ [0xC1] @ units ''RIO'')) =
      Inr (Str (units ''OWNER''))"
    by (simp add: role_defs)
next
  assume "trim (toLowerCase lib r0) \<notin> set objectPrototypeNames"
  then show "\<exists>s. mapTahRole lib (Str r0) = Inr (Str s)"
    by (simp add: mapTahRole_def roleTableGet_def split: option.splits)
next
  assume "latin1 r \<and> trim (toLowerCase lib r) \<notin> set objectPrototypeNames"
  then have "latin1 r" "trim (toLowerCase lib r) \<notin> set objectPrototypeNames" by simp_all
  from mapTahRole_idempotent[OF this]
  obtain s where "mapTahRole lib (Str r) = Inr (Str s)" "mapTahRole lib (Str s) = Inr (Str s)"
    by blast
  then show "\<exists>s. mapTahRole lib (Str r) = Inr (Str s) \<and> mapTahRoleTwice lib (Str r) = Inr (Str s)"
    by (simp add: mapTahRoleTwice_def)
next
  assume "latin1 r1 \<and> latin1 r2 \<and> toLowerCase lib r1 = toLowerCase lib r2"
  then have "latin1 r1" "latin1 r2" "toLowerCase lib r1 = toLowerCase lib r2" by simp_all
  then show "mapTahRole lib (Str r1) = mapTahRole lib (Str r2)"
    by (rule mapTahRole_case_insensitive)
next
  assume "r3 \<noteq> [] \<and> map_of TAH_ROLE_MAPPING (trim (toLowerCase lib r3)) = None \<and>
    trim (toLowerCase lib r3) \<notin> set objectPrototypeNames"
  then have u: "mapTahRole lib (Str r3) = Inr (Str (toUpperCase lib r3))"
    by (simp add: unmapped_role)
  then show "mapTahRole lib (Str r3) = Inr (Str (toUpperCase lib r3))" .
  from u show "mapTahRoleTwice lib (Str r3) = mapTahRole lib (Str (toUpperCase lib r3))"
    by (simp add: mapTahRoleTwice_def)
next
  assume a: "r4 \<noteq> [] \<and> map_of TAH_ROLE_MAPPING (trim (toLowerCase lib r4)) = Some v"
  then have "r4 \<noteq> []" "map_of TAH_ROLE_MAPPING (trim (toLowerCase lib r4)) = Some v"
    by simp_all
  from mapped_role[OF this]
  show "mapTahRole lib (Str r4) = Inr (Str v)" "mapTahRoleTwice lib (Str r4) = Inr (Str v)"
    by simp_all
qed

theorem role_mapping_witness:
  "mapTahRole unusedLibrary (Str (units '' Gestor '')) = Inr (Str (units ''ADMIN'')) \<and>
   mapTahRoleTwice unusedLibrary (Str (units '' Gestor '')) = Inr (Str (units ''ADMIN'')) \<and>
   mapTahRole unusedLibrary (Str (units ''Stra'' @ [0xDF] @ units ''e'')) =
     Inr (Str (units ''STRASSE'')) \<and>
   mapTahRoleTwice unusedLibrary (Str (units ''Stra'' @ [0xDF] @ units ''e'')) =
     Inr (Str (units ''STRASSE'')) \<and>
   mapTahRole unusedLibrary (Str (units ''Usu'' @ [0xE1] @ units ''rio'')) =
     mapTahRole unusedLibrary (Str (units ''USU'' @ [0xC1] @ units ''RIO'')) \<and>
   mapTahRole unusedLibrary (Str (units '' auditor'')) = Inr (Str (units '' AUDITOR''))"
proof -
  let ?gestor = "units '' Gestor ''"
  let ?strasse = "units ''Stra'' @ [0xDF] @ units ''e''"
  let ?u1 = "units ''Usu'' @ [0xE1] @ units ''rio''"
  let ?u2 = "units ''USU'' @ [0xC1] @ units ''RIO''"
  let ?auditor = "units '' auditor''"
  have 0: "trim (toLowerCase unusedLibrary ?gestor) \<notin> set objectPrototypeNames"
    by (simp add: role_defs)
  have 1: "latin1 ?strasse \<and>
           trim (toLowerCase unusedLibrary ?strasse) \<notin> set objectPrototypeNames"
    by (simp add: latin1_def role_defs)
  have 2: "latin1 ?u1 \<and> latin1 ?u2 \<and>
           toLowerCase unusedLibrary ?u1 = toLowerCase unusedLibrary ?u2"
    by (simp add: latin1_def role_defs)
  have 3: "?auditor \<noteq> [] \<and>
           map_of TAH_ROLE_MAPPING (trim (toLowerCase unusedLibrary ?auditor)) = None \<and>
           trim (toLowerCase unusedLibrary ?auditor) \<notin> set objectPrototypeNames"
    by (simp add: role_defs)
  have 4: "?gestor \<noteq> [] \<and>
           map_of TAH_ROLE_MAPPING (trim (toLowerCase unusedLibrary ?gestor)) =
             Some (units ''ADMIN'')"
    by (simp add: role_defs)
  have 5: "toUpperCase unusedLibrary ?auditor = units '' AUDITOR''"
    by (simp add: role_defs)
  have 6: "mapTahRole unusedLibrary (Str ?strasse) = Inr (Str (units ''STRASSE''))"
    by (simp add: role_defs)
  from role_mapping [of unusedLibrary ?gestor ?strasse ?u1 ?u2 ?auditor ?gestor
         "units ''ADMIN''"] 0 1 2 3 4
  have "(\<exists>s. mapTahRole unusedLibrary (Str ?strasse) = Inr (Str s) \<and>
             mapTahRoleTwice unusedLibrary (Str ?strasse) = Inr (Str s)) \<and>
        mapTahRole unusedLibrary (Str ?u1) = mapTahRole unusedLibrary (Str ?u2) \<and>
        mapTahRole unusedLibrary (Str ?auditor) =
          Inr (Str (toUpperCase unusedLibrary ?auditor)) \<and>
        mapTahRoleTwice unusedLibrary (Str ?auditor) =
          mapTahRole unusedLibrary (Str (toUpperCase unusedLibrary ?auditor)) \<and>
        mapTahRole unusedLibrary (Str ?gestor) = Inr (Str (units ''ADMIN'')) \<and>
        mapTahRoleTwice unusedLibrary (Str ?gestor) = Inr (Str (units ''ADMIN''))"
    by blast
  with 5 6 show ?thesis by auto
qed


section \<open>The authentication middleware and the permission guards\<close>

lemma first_split: "first (split sep s) = Some (takeWhile (\<lambda>c. c \<noteq> sep) s)"
  by (induction s) (auto simp: first_def split: list.splits)

text \<open>The guard \<open>checkPermission\<close> of the authentication middleware grants exactly on
  the six forms of permission the specification lists.\<close>

lemma permissionGrants_iff:
  "permissionGrants featureId action p \<longleftrightarrow>
     (p = ''*'' \<or> p = ''*:*'' \<or> p = featureId @ '':'' @ action \<or> p = featureId @ '':*'' \<or>
      p = categoryOf featureId @ '':'' @ action \<or> p = categoryOf featureId @ '':*'')"
  unfolding permissionGrants_def first_split categoryOf_def the_default_def option.case
  by (cases "p = ''*''"; cases "p = ''*:*''"; cases "p = featureId @ '':*''";
      cases "p = featureId @ '':'' @ action"; simp; blast)

lemma checkPermission_iff:
  assumes "p_authSource u = Some ''tah''"
  shows "checkPermission featureId action (Some u) = Next () \<longleftrightarrow>
     (\<exists>p \<in> set (the_default [] (p_permissions u)).
        p = ''*'' \<or> p = ''*:*'' \<or> p = featureId @ '':'' @ action \<or> p = featureId @ '':*'' \<or>
        p = categoryOf featureId @ '':'' @ action \<or> p = categoryOf featureId @ '':*'')"
  using assms unfolding checkPermission_def list_ex_iff permissionGrants_iff
  by simp

lemma other_sources_pass:
  "p_authSource u \<noteq> Some ''tah'' \<Longrightarrow>
   checkPermission featureId action (Some u) = Next () \<and>
   checkTahPermission featureId action (Some u) = Next ()"
  by (simp add: checkPermission_def checkTahPermission_def)


text \<open>In \<open>checkTahPermission\<close> a permission of the form \<open>resource:*\<close> grants every
  feature and every action, whatever the resource is.\<close>

lemma split_at_first_separator:
  "sep \<notin> set r \<Longrightarrow> split sep (r @ sep # rest) = r # split sep rest"
  by (induction r) auto

lemma tah_wildcard_action_grants_all:
  assumes "CHR '':'' \<notin> set resource"
  shows "tahPermissionGrants featureId action (resource @ '':*'')"
  using split_at_first_separator[OF assms, of "[CHR ''*'']"]
  by (simp add: tahPermissionGrants_def first_def second_def)

text \<open>
  Claim C7. For a user of external source the guard should pass exactly on \<open>*\<close>,
  \<open>*:*\<close>, \<open>featureId:action\<close>, \<open>featureId:*\<close>, \<open>category:action\<close> and
  \<open>category:*\<close>, and on no other permission such as \<open>other:*\<close>. The guard
  \<open>checkPermission\<close> does so (\<open>checkPermission_iff\<close>); the guard
  \<open>checkTahPermission\<close> of the TAH middleware does not: it splits the permission at
  the colon and passes whenever the second segment is \<open>*\<close>. A user whose only
  permission is \<open>other:*\<close> passes its check of \<open>workflows.list\<close> and \<open>read\<close>, and is
  refused by \<open>checkPermission\<close>.
\<close>

theorem tah_guard_passes_foreign_wildcard:
  "checkTahPermission ''workflows.list'' ''read'' (Some (tahUserWith [''other:*''])) = Next () \<and>
   checkPermission ''workflows.list'' ''read'' (Some (tahUserWith [''other:*''])) =
     Reply (Response 403 ''Feature access denied'')"
  by (simp add: checkTahPermission_def checkPermission_def tahUserWith_def
        tahPermissionGrants_def permissionGrants_def first_def second_def the_default_def)

text \<open>A verified local token yields the source tag \<open>local\<close>, and a role list that is
  not empty unless the \<open>roles\<close> claim is the empty array.\<close>

lemma validateLocalToken_roles:
  assumes "verifyAccessToken token = Some decoded" and "c_roles decoded \<noteq> Some []"
  shows "\<exists>u. validateLocalToken verifyAccessToken token = Inr u \<and>
              p_authSource u = Some ''local'' \<and> p_roles u \<noteq> []"
  using assms
  by (auto simp: validateLocalToken_def rolesOfClaims_def split: option.splits)

text \<open>
  Claim C8. A verified local token should yield a principal of source \<open>local\<close> with a
  role list that is not empty, also when its \<open>roles\<close> claim is the empty array. The
  code does not do so: it takes \<open>decoded.roles || ...\<close>, and the empty array is
  truthy, so the role list of the principal is empty, while the single \<open>role\<close> of
  the same principal is the default \<open>USER\<close>.
\<close>

theorem validateLocalToken_empty_roles:
  "map_sum id p_roles (validateLocalToken (\<lambda>t. Some emptyRolesToken) ''jwt'') = Inr [] \<and>
   map_sum id p_role (validateLocalToken (\<lambda>t. Some emptyRolesToken) ''jwt'') =
     Inr (Some ''USER'') \<and>
   map_sum id p_authSource (validateLocalToken (\<lambda>t. Some emptyRolesToken) ''jwt'') =
     Inr (Some ''local'')"
  by (simp add: validateLocalToken_def emptyRolesToken_def rolesOfClaims_def js_or_def
        truthy_def)

text \<open>The validation of a token does not read the variables of the bypass, and the
  principal it returns has the source tag \<open>tah\<close> or \<open>local\<close>.\<close>

lemma validateToken_ignores_bypass:
  "validateToken (env\<lparr>DEV_AUTH_BYPASS := flag, DEV_USER_ID := i, DEV_USER_EMAIL := e,
                      DEV_USER_ROLE := r, DEV_ORG_ID := org\<rparr>) token =
   validateToken env token"
  by (simp add: validateToken_def)

lemma validateToken_source:
  "validateToken env token = Inr user \<Longrightarrow>
   p_authSource user = Some ''tah'' \<or> p_authSource user = Some ''local''"
  by (auto simp add: validateToken_def validateLocalToken_def
        split: if_splits sum.splits option.splits)

text \<open>
  Claim C10. For every request whose Authorization header carries a Bearer token (the
  header is \<open>Bearer\<close>, a space and a token that is not empty), the outcome of
  \<open>authenticate\<close> is that of the validation of the token: the validated principal, or
  401 when the validation fails; the outcome of \<open>optionalAuth\<close> is the validated
  principal or none. The validated principal has the source tag \<open>tah\<close> or \<open>local\<close>,
  so it is not the bypass user, and neither middleware reads the variables of the
  bypass: setting them to anything leaves both outcomes as they are.
\<close>

theorem dev_bypass_only_without_token:
  assumes "authorization req = Some (''Bearer '' @ token)" and "token \<noteq> []"
  shows "authenticate env req =
           (case validateToken env token of
              Inl err \<Rightarrow> Reply (Response 401 ''Invalid or expired token'')
            | Inr user \<Rightarrow> Next user) \<and>
         optionalAuth env req =
           (case validateToken env token of Inl err \<Rightarrow> None | Inr user \<Rightarrow> Some user) \<and>
         (case validateToken env token of
            Inl err \<Rightarrow> True
          | Inr user \<Rightarrow> p_authSource user = Some ''tah'' \<or> p_authSource user = Some ''local'') \<and>
         authenticate (env\<lparr>DEV_AUTH_BYPASS := flag, DEV_USER_ID := i, DEV_USER_EMAIL := e,
                            DEV_USER_ROLE := r, DEV_ORG_ID := org\<rparr>) req =
           authenticate env req \<and>
         optionalAuth (env\<lparr>DEV_AUTH_BYPASS := flag, DEV_USER_ID := i, DEV_USER_EMAIL := e,
                            DEV_USER_ROLE := r, DEV_ORG_ID := org\<rparr>) req =
           optionalAuth env req"
proof -
  have t: "extractToken req = Some token"
    using assms(1) by (simp add: extractToken_def bearerToken_def startsWith_def)
  have s: "case validateToken env token of
             Inl err \<Rightarrow> True
           | Inr user \<Rightarrow> p_authSource user = Some ''tah'' \<or> p_authSource user = Some ''local''"
    using validateToken_source[of env token] by (simp split: sum.splits)
  show ?thesis
    using t assms(2) s
    by (simp add: authenticate_def optionalAuth_def extractToken_def truthy_def the_default_def
          validateToken_ignores_bypass)
qed

text \<open>With the bypass switched on and no token valid: a request with a token is
  answered 401 by \<open>authenticate\<close> and goes on without a user in \<open>optionalAuth\<close>; the
  same request without its Authorization header gets the bypass user.\<close>

theorem dev_bypass_only_without_token_witness:
  "authenticate bypassEnv expiredTokenRequest = Reply (Response 401 ''Invalid or expired token'') \<and>
   optionalAuth bypassEnv expiredTokenRequest = None \<and>
   authenticate bypassEnv (expiredTokenRequest\<lparr>authorization := None\<rparr>) =
     Next (DEV_USER bypassEnv) \<and>
   p_authSource (DEV_USER bypassEnv) = Some ''dev-bypass''"
proof -
  have a: "authorization expiredTokenRequest = Some (''Bearer '' @ ''expired.jwt'')"
    and n: "''expired.jwt'' \<noteq> []"
    by (simp_all add: expiredTokenRequest_def)
  have v: "validateToken bypassEnv ''expired.jwt'' = Inl (Thrown ''Invalid or expired token'')"
    by (simp add: validateToken_def validateLocalToken_def bypassEnv_def isLocalEnabled_def
          isTahToken_def isTahTokenTry_def)
  have b: "authenticate bypassEnv (expiredTokenRequest\<lparr>authorization := None\<rparr>) =
             Next (DEV_USER bypassEnv)"
    by (simp add: authenticate_def applyDevBypass_def AUTH_BYPASS_ENABLED_def extractToken_def
          bearerToken_def truthy_def expiredTokenRequest_def bypassEnv_def)
  have d: "p_authSource (DEV_USER bypassEnv) = Some ''dev-bypass''"
    by (simp add: DEV_USER_def)
  from dev_bypass_only_without_token [OF a n, of bypassEnv] v b d
  show ?thesis by simp
qed


section \<open>The read handlers of the API key routes\<close>

text \<open>Searching, filtering and sorting by something that does not read the hash
  commute with blanking the hashes.\<close>

lemma find_eraseHash:
  assumes "\<And>k. P (eraseHash k) = P k"
  shows "find P (map eraseHash db) = map_option eraseHash (find P db)"
  using assms by (induction db) auto

lemma filter_eraseHash:
  assumes "\<And>k. P (eraseHash k) = P k"
  shows "map eraseHash (filter P db) = filter P (map eraseHash db)"
  using assms by (induction db) auto

lemma insort_eraseHash:
  assumes "\<And>k. f (eraseHash k) = f k"
  shows "map eraseHash (insort_key f x xs) = insort_key f (eraseHash x) (map eraseHash xs)"
  using assms by (induction xs) auto

lemma sort_eraseHash:
  assumes "\<And>k. f (eraseHash k) = f k"
  shows "map eraseHash (sort_key f xs) = sort_key f (map eraseHash xs)"
  using assms by (induction xs) (auto simp: insort_eraseHash)

lemma matchesFilter_eraseHash: "matchesFilter f (eraseHash k) = matchesFilter f k"
  by (simp add: matchesFilter_def eraseHash_def split: tenantFilter.splits)

lemma selectList_eraseHash: "selectList (eraseHash k) = selectList k"
  by (simp add: selectList_def eraseHash_def)

lemma selectGet_eraseHash: "selectGet (eraseHash k) = selectGet k"
  by (simp add: selectGet_def eraseHash_def)

lemma selectStats_eraseHash: "selectStats (eraseHash k) = selectStats k"
  by (simp add: selectStats_def eraseHash_def)

text \<open>Each handler answers on a table as it does on the table with the hashes
  blanked.\<close>

lemma listApiKeys_erased:
  "listApiKeys user includeInactive db = listApiKeys user includeInactive (map eraseHash db)"
proof -
  let ?P = "\<lambda>k. matchesFilter (buildTenantFilter (getTenantContext user)) k \<and>
                (truthy includeInactive \<or> ak_isActive k)"
  let ?f = "\<lambda>k. - ak_createdAt k"
  have P: "\<And>k. ?P (eraseHash k) = ?P k"
    by (simp add: matchesFilter_eraseHash) (simp add: eraseHash_def)
  have f: "\<And>k. ?f (eraseHash k) = ?f k" by (simp add: eraseHash_def)
  have "map (\<lambda>k. JObj (selectList k)) (sort_key ?f (filter ?P db)) =
        map (\<lambda>k. JObj (selectList k)) (map eraseHash (sort_key ?f (filter ?P db)))"
    by (simp add: selectList_eraseHash comp_def)
  also have "map eraseHash (sort_key ?f (filter ?P db)) =
             sort_key ?f (filter ?P (map eraseHash db))"
    using sort_eraseHash[of ?f, OF f] filter_eraseHash[of ?P, OF P] by simp
  finally show ?thesis by (simp add: listApiKeys_def Let_def)
qed

lemma getApiKey_erased: "getApiKey user keyId db = getApiKey user keyId (map eraseHash db)"
proof -
  let ?P = "\<lambda>k. ak_id k = keyId \<and> matchesFilter (buildTenantFilter (getTenantContext user)) k"
  have P: "\<And>k. ?P (eraseHash k) = ?P k"
    by (simp add: matchesFilter_eraseHash) (simp add: eraseHash_def)
  from find_eraseHash[of ?P db, OF P] show ?thesis
    by (cases "find ?P db") (auto simp add: getApiKey_def Let_def selectGet_eraseHash)
qed

lemma getApiKeyStats_erased:
  "getApiKeyStats now user keyId db = getApiKeyStats now user keyId (map eraseHash db)"
proof -
  let ?P = "\<lambda>k. ak_id k = keyId \<and> matchesFilter (buildTenantFilter (getTenantContext user)) k"
  have P: "\<And>k. ?P (eraseHash k) = ?P k"
    by (simp add: matchesFilter_eraseHash) (simp add: eraseHash_def)
  from find_eraseHash[of ?P db, OF P] show ?thesis
    by (cases "find ?P db")
       (auto simp add: getApiKeyStats_def Let_def selectStats_eraseHash, auto simp: eraseHash_def)
qed

text \<open>No member of any of the three answers is named \<open>keyHash\<close>.\<close>

lemma listApiKeys_no_keyHash:
  "''keyHash'' \<notin> set (memberNames (http_body (listApiKeys user includeInactive db)))"
  by (auto simp: listApiKeys_def Let_def selectList_def jOptStr_def jOptNum_def jStrs_def
        split: option.splits)

lemma getApiKey_no_keyHash:
  "''keyHash'' \<notin> set (memberNames (http_body (getApiKey user keyId db)))"
  by (auto simp: getApiKey_def Let_def selectGet_def jOptStr_def jOptNum_def jStrs_def
        split: option.splits)

lemma getApiKeyStats_no_keyHash:
  "''keyHash'' \<notin> set (memberNames (http_body (getApiKeyStats now user keyId db)))"
  by (auto simp: getApiKeyStats_def Let_def selectStats_def jOptStr_def jOptNum_def jStrs_def
        split: option.splits)

text \<open>
  Claim C9. The answers of the three read handlers of the API key routes (list, get by
  id, statistics) do not depend on the stored hashes: on two tables that differ at
  most in the \<open>keyHash\<close> values of their rows, each handler gives the same answer to
  the same request; and no member of an answer is named \<open>keyHash\<close>.
\<close>

theorem read_endpoints_hide_keyHash:
  assumes "sameButHashes db1 db2"
  shows "listApiKeys user includeInactive db1 = listApiKeys user includeInactive db2 \<and>
         getApiKey user keyId db1 = getApiKey user keyId db2 \<and>
         getApiKeyStats now user keyId db1 = getApiKeyStats now user keyId db2 \<and>
         ''keyHash'' \<notin> set (memberNames (http_body (listApiKeys user includeInactive db1))) \<and>
         ''keyHash'' \<notin> set (memberNames (http_body (getApiKey user keyId db1))) \<and>
         ''keyHash'' \<notin> set (memberNames (http_body (getApiKeyStats now user keyId db1)))"
proof -
  from assms have e: "map eraseHash db1 = map eraseHash db2"
    by (simp add: sameButHashes_def)
  have "listApiKeys user includeInactive db1 =
        listApiKeys user includeInactive (map eraseHash db1)"
    by (rule listApiKeys_erased)
  also have "\<dots> = listApiKeys user includeInactive db2"
    unfolding e by (rule listApiKeys_erased [symmetric])
  finally have 1: "listApiKeys user includeInactive db1 = listApiKeys user includeInactive db2" .
  have "getApiKey user keyId db1 = getApiKey user keyId (map eraseHash db1)"
    by (rule getApiKey_erased)
  also have "\<dots> = getApiKey user keyId db2"
    unfolding e by (rule getApiKey_erased [symmetric])
  finally have 2: "getApiKey user keyId db1 = getApiKey user keyId db2" .
  have "getApiKeyStats now user keyId db1 = getApiKeyStats now user keyId (map eraseHash db1)"
    by (rule getApiKeyStats_erased)
  also have "\<dots> = getApiKeyStats now user keyId db2"
    unfolding e by (rule getApiKeyStats_erased [symmetric])
  finally have 3: "getApiKeyStats now user keyId db1 = getApiKeyStats now user keyId db2" .
  from 1 2 3 listApiKeys_no_keyHash getApiKey_no_keyHash getApiKeyStats_no_keyHash
  show ?thesis by blast
qed

theorem read_endpoints_hide_keyHash_witness:
  "listApiKeys (tahUserWith []) None [freshKey] =
     listApiKeys (tahUserWith []) None [freshKey\<lparr>ak_keyHash := ''sk_other''\<rparr>] \<and>
   getApiKey (tahUserWith []) ''key-1'' [freshKey] =
     getApiKey (tahUserWith []) ''key-1'' [freshKey\<lparr>ak_keyHash := ''sk_other''\<rparr>] \<and>
   getApiKeyStats 10 (tahUserWith []) ''key-1'' [freshKey] =
     getApiKeyStats 10 (tahUserWith []) ''key-1'' [freshKey\<lparr>ak_keyHash := ''sk_other''\<rparr>] \<and>
   http_status (getApiKey (tahUserWith []) ''key-1'' [freshKey]) = 200"
proof -
  have s: "sameButHashes [freshKey] [freshKey\<lparr>ak_keyHash := ''sk_other''\<rparr>]"
    by (simp add: sameButHashes_def eraseHash_def)
  have f: "http_status (getApiKey (tahUserWith []) ''key-1'' [freshKey]) = 200"
    by (simp add: getApiKey_def getTenantContext_def buildTenantFilter_def matchesFilter_def
          tahUserWith_def freshKey_def js_or_def truthy_def the_default_def)
  from read_endpoints_hide_keyHash [OF s, of "tahUserWith []" None "''key-1''" 10] f
  show ?thesis by simp
qed


end
